theory Spec2Isabelle
  imports Main "HOL-Library.Sublist"
begin

section \<open>Values of the program\<close>

text \<open>
  A Python \<open>str\<close> is a sequence of Unicode code points, and \<open>s[:50]\<close> counts code
  points, so a string is a list of code points. \<open>str\<close> turns an ASCII literal of this
  file into such a list; the Korean and emoji literals of \<open>main.py\<close> are written out
  by code point. The raw body of a request is a sequence of bytes.
\<close>

type_synonym pystr = "nat list"
type_synonym bytes = string

definition str :: "string \<Rightarrow> pystr" where
  "str s = map of_char s"

text \<open>
  What \<open>json.loads\<close> returns. An object is the list of the dict's items, in order, its
  keys distinct. A number is kept as an integer: the program only looks at whether it is
  zero, and formats it.
\<close>

datatype json =
    JNull
  | JBool bool
  | JNum int
  | JStr pystr
  | JArr "json list"
  | JObj "(pystr \<times> json) list"

text \<open>
  The exceptions that leave a handler. \<open>TypeError\<close> stands for the exception of
  subscripting a value that has no slices (for a dict it is a \<open>KeyError\<close> from
  Python 3.12 on). \<open>RegistryError\<close>, \<open>PublishError\<close>, \<open>CancelError\<close> and
  \<open>SinkError\<close> are whatever the registry client, the delayed-delivery client and the
  HTTP client raise when a call fails; \<open>VerifyError\<close> is what a signature verification
  raises.
\<close>

datatype error =
    HTTPException nat pystr
  | JSONDecodeError
  | UnicodeDecodeError
  | AttributeError
  | TypeError
  | VerifyError
  | RegistryError
  | CancelError
  | PublishError
  | SinkError

text \<open>\<open>d.get(k, default)\<close>: only a dict has \<open>get\<close>.\<close>

fun dict_get :: "json \<Rightarrow> pystr \<Rightarrow> json \<Rightarrow> error + json" where
  "dict_get (JObj kv) k d = Inr (case map_of kv k of None \<Rightarrow> d | Some v \<Rightarrow> v)"
| "dict_get _ k d = Inl AttributeError"

text \<open>Truth value of a value, as \<open>if x\<close> and \<open>x or y\<close> test it.\<close>

fun truthy :: "json \<Rightarrow> bool" where
  "truthy JNull = False"
| "truthy (JBool b) = b"
| "truthy (JNum n) = (n \<noteq> 0)"
| "truthy (JStr s) = (s \<noteq> [])"
| "truthy (JArr xs) = (xs \<noteq> [])"
| "truthy (JObj kv) = (kv \<noteq> [])"

definition py_or :: "json \<Rightarrow> json \<Rightarrow> json" where
  "py_or a b = (if truthy a then a else b)"

text \<open>\<open>x[:50]\<close>: strings and lists have slices, nothing else that JSON yields has.\<close>

fun slice50 :: "json \<Rightarrow> error + json" where
  "slice50 (JStr s) = Inr (JStr (take 50 s))"
| "slice50 (JArr xs) = Inr (JArr (take 50 xs))"
| "slice50 _ = Inl TypeError"

text \<open>Sequencing of steps that may raise.\<close>

definition bind :: "error + 'a \<Rightarrow> ('a \<Rightarrow> error + 'b) \<Rightarrow> error + 'b" where
  "bind m f = (case m of Inl e \<Rightarrow> Inl e | Inr v \<Rightarrow> f v)"

section \<open>Configuration, library and collaborators\<close>

text \<open>
  A \<open>datetime.time\<close> without time zone is compared as the tuple
  (hour, minute, second, microsecond).
\<close>

type_synonym time = "nat \<times> nat \<times> nat \<times> nat"

fun time_le :: "time \<Rightarrow> time \<Rightarrow> bool" where
  "time_le (h1, m1, s1, u1) (h2, m2, s2, u2) =
     (h1 < h2 \<or> (h1 = h2 \<and> (m1 < m2 \<or> (m1 = m2 \<and> (s1 < s2 \<or> (s1 = s2 \<and> u1 \<le> u2))))))"

text \<open>The module-level settings, read from the environment once at import.\<close>

record config =
  SLACK_WEBHOOK_URL :: pystr
  MY_MEMBER_ID :: pystr
  OPERATION_START :: time
  OPERATION_END :: time
  BASE_URL :: pystr

text \<open>
  The functions of the Python library that the handlers call and that are not modelled
  further: \<open>bytes.decode\<close> and \<open>json.loads\<close> (\<open>None\<close> when they raise), and the text
  that an f-string puts for a value that is not a string.
\<close>

record pylib =
  bytes_decode :: "bytes \<Rightarrow> pystr option"
  json_loads :: "bytes \<Rightarrow> json option"
  format_value :: "json \<Rightarrow> pystr"

text \<open>
  The calls made to the collaborators: to the registry (the Redis store), to the
  delayed-delivery service and to the notification sink. \<open>Failed c\<close> is a call to the
  registry that raised.
\<close>

datatype call =
    RedisGet pystr
  | RedisDelete pystr
  | RedisSet pystr pystr int
  | QCancel pystr
  | QPublish pystr json int
  | SlackPost pystr pystr
  | Failed call

text \<open>
  What the outside world answers during one request. Every handler makes each call at
  most once, so one answer per call describes a request fully: the local time of day,
  whether a call to the registry raises, whether cancelling a delivery raises, the
  message id that scheduling a delivery returns (\<open>None\<close> when it raises), and the HTTP
  status the notification sink answers (\<open>None\<close> when the post raises).
\<close>

record extern =
  clock_now :: time
  registry_raises :: "call \<Rightarrow> bool"
  cancel_raises :: "pystr \<Rightarrow> bool"
  publish_json :: "pystr \<Rightarrow> json \<Rightarrow> int \<Rightarrow> pystr option"
  sink_post :: "pystr \<Rightarrow> pystr \<Rightarrow> nat option"

section \<open>State\<close>

text \<open>
  The state the handlers act on: the Timer Registry (key to value and the \<open>ex\<close>
  seconds it was set with) and the calls made to the collaborators so far, in order.
  None of the three calls to the registry is inside a \<open>try\<close>: one that raises ends the
  request. It is taken not to have reached the store, and it is recorded as \<open>Failed\<close>.
  The expiry of an entry with time is not modelled (it can only remove entries).
\<close>

record world =
  registry :: "pystr \<rightharpoonup> pystr \<times> int"
  calls :: "call list"

definition record_call :: "call \<Rightarrow> world \<Rightarrow> world" where
  "record_call c w = w\<lparr>calls := calls w @ [c]\<rparr>"

definition redis_get :: "extern \<Rightarrow> pystr \<Rightarrow> world \<Rightarrow> (error + pystr option) \<times> world" where
  "redis_get ext key w =
     (if registry_raises ext (RedisGet key)
      then (Inl RegistryError, record_call (Failed (RedisGet key)) w)
      else (Inr (map_option fst (registry w key)), record_call (RedisGet key) w))"

definition redis_delete :: "extern \<Rightarrow> pystr \<Rightarrow> world \<Rightarrow> (error + unit) \<times> world" where
  "redis_delete ext key w =
     (if registry_raises ext (RedisDelete key)
      then (Inl RegistryError, record_call (Failed (RedisDelete key)) w)
      else (Inr (), record_call (RedisDelete key) (w\<lparr>registry := (registry w)(key := None)\<rparr>)))"

definition redis_set :: "extern \<Rightarrow> pystr \<Rightarrow> pystr \<Rightarrow> int \<Rightarrow> world \<Rightarrow> (error + unit) \<times> world" where
  "redis_set ext key v ex w =
     (if registry_raises ext (RedisSet key v ex)
      then (Inl RegistryError, record_call (Failed (RedisSet key v ex)) w)
      else (Inr (), record_call (RedisSet key v ex) (w\<lparr>registry := (registry w)(key \<mapsto> (v, ex))\<rparr>)))"

definition qstash_cancel :: "extern \<Rightarrow> pystr \<Rightarrow> world \<Rightarrow> (error + unit) \<times> world" where
  "qstash_cancel ext msg_id w =
     (if cancel_raises ext msg_id then Inl CancelError else Inr (),
      record_call (QCancel msg_id) w)"

definition qstash_publish_json ::
  "extern \<Rightarrow> pystr \<Rightarrow> json \<Rightarrow> int \<Rightarrow> world \<Rightarrow> (error + pystr) \<times> world" where
  "qstash_publish_json ext url body delay w =
     (case publish_json ext url body delay of None \<Rightarrow> Inl PublishError | Some message_id \<Rightarrow> Inr message_id,
      record_call (QPublish url body delay) w)"

section \<open>The handlers of main.py\<close>

definition is_operation_hours :: "config \<Rightarrow> extern \<Rightarrow> bool" where
  "is_operation_hours cfg ext =
     (time_le (OPERATION_START cfg) (clock_now ext) \<and> time_le (clock_now ext) (OPERATION_END cfg))"

definition send_slack :: "config \<Rightarrow> extern \<Rightarrow> pystr \<Rightarrow> world \<Rightarrow> (error + unit) \<times> world" where
  "send_slack cfg ext message w =
     (case sink_post ext (SLACK_WEBHOOK_URL cfg) message of None \<Rightarrow> Inl SinkError | Some status \<Rightarrow> Inr (),
      record_call (SlackPost (SLACK_WEBHOOK_URL cfg) message) w)"

text \<open>\<open>f"{v}"\<close>: a string is put as it is.\<close>

definition py_format :: "pylib \<Rightarrow> json \<Rightarrow> pystr" where
  "py_format lib v = (case v of JStr s \<Rightarrow> s | _ \<Rightarrow> format_value lib v)"

definition timer_key :: "pylib \<Rightarrow> json \<Rightarrow> pystr" where
  "timer_key lib chat_id = str ''timer:'' @ py_format lib chat_id"

text \<open>
  \<open>cancel_existing_timer\<close>: \<open>if msg_id\<close> holds for a stored id that is not the empty
  string; an exception of the upstream cancel is caught and dropped, one of the registry
  is not.
\<close>

definition cancel_existing_timer ::
  "pylib \<Rightarrow> extern \<Rightarrow> json \<Rightarrow> world \<Rightarrow> (error + unit) \<times> world" where
  "cancel_existing_timer lib ext chat_id w =
     (case redis_get ext (timer_key lib chat_id) w of
        (Inl e, w1) \<Rightarrow> (Inl e, w1)
      | (Inr None, w1) \<Rightarrow> (Inr (), w1)
      | (Inr (Some msg_id), w1) \<Rightarrow>
          if msg_id \<noteq> [] then
            (case qstash_cancel ext msg_id w1 of
               (Inl e, w2) \<Rightarrow> redis_delete ext (timer_key lib chat_id) w2
             | (Inr u, w2) \<Rightarrow> redis_delete ext (timer_key lib chat_id) w2)
          else (Inr (), w1))"

definition schedule_timer ::
  "config \<Rightarrow> pylib \<Rightarrow> extern \<Rightarrow> json \<Rightarrow> int \<Rightarrow> json \<Rightarrow> world \<Rightarrow> (error + unit) \<times> world" where
  "schedule_timer cfg lib ext chat_id delay_seconds alert_payload w =
     (case cancel_existing_timer lib ext chat_id w of
        (Inl e, w1) \<Rightarrow> (Inl e, w1)
      | (Inr u, w1) \<Rightarrow>
     (case qstash_publish_json ext (BASE_URL cfg @ str ''/alert'') alert_payload delay_seconds w1 of
        (Inl e, w2) \<Rightarrow> (Inl e, w2)
      | (Inr message_id, w2) \<Rightarrow>
          redis_set ext (timer_key lib chat_id) message_id (delay_seconds + 60) w2))"

text \<open>
  Lines 81 to 89 of \<open>handle_customer_message\<close>, which read the event and touch no
  collaborator: they give (chat_id, chat_title, customer_name, msg_preview, assignee).
\<close>

definition default_customer :: pystr where
  "default_customer = [0xACE0, 0xAC1D]"

definition message_fields :: "json \<Rightarrow> error + (json \<times> json \<times> json \<times> json \<times> json)" where
  "message_fields payload =
     bind (dict_get payload (str ''chat'') (JObj [])) (\<lambda>chat.
     bind (dict_get payload (str ''entity'') (JObj [])) (\<lambda>message.
     bind (dict_get chat (str ''id'') (JStr (str ''unknown''))) (\<lambda>chat_id.
     bind (dict_get chat (str ''name'') JNull) (\<lambda>name.
     bind (dict_get payload (str ''user'') (JObj [])) (\<lambda>user.
     bind (dict_get user (str ''name'') (JStr default_customer)) (\<lambda>customer_name.
     bind (dict_get message (str ''plainText'') (JStr [])) (\<lambda>plain_text.
     bind (slice50 (py_or plain_text (JStr []))) (\<lambda>msg_preview.
     bind (dict_get chat (str ''assignee'') JNull) (\<lambda>assignee.
     Inr (chat_id, py_or name chat_id, customer_name, msg_preview, assignee))))))))))"

definition handle_customer_message ::
  "config \<Rightarrow> pylib \<Rightarrow> extern \<Rightarrow> json \<Rightarrow> world \<Rightarrow> (error + unit) \<times> world" where
  "handle_customer_message cfg lib ext payload w =
     (if \<not> is_operation_hours cfg ext then (Inr (), w)
      else case message_fields payload of
        Inl e \<Rightarrow> (Inl e, w)
      | Inr (chat_id, chat_title, customer_name, msg_preview, assignee) \<Rightarrow>
          if assignee = JNull then
            schedule_timer cfg lib ext chat_id (5 * 60)
              (JObj [(str ''type'', JStr (str ''unassigned'')),
                     (str ''chat_id'', chat_id),
                     (str ''chat_title'', chat_title),
                     (str ''customer_name'', customer_name),
                     (str ''msg_preview'', msg_preview)]) w
          else (case dict_get assignee (str ''id'') JNull of
              Inl e \<Rightarrow> (Inl e, w)
            | Inr assignee_id \<Rightarrow>
                if assignee_id = JStr (MY_MEMBER_ID cfg) then
                  schedule_timer cfg lib ext chat_id (3 * 60)
                    (JObj [(str ''type'', JStr (str ''my_chat'')),
                           (str ''chat_id'', chat_id),
                           (str ''chat_title'', chat_title),
                           (str ''customer_name'', customer_name),
                           (str ''msg_preview'', msg_preview)]) w
                else (Inr (), w)))"

text \<open>The acknowledgment \<open>{"ok": True}\<close>.\<close>

definition ok_response :: json where
  "ok_response = JObj [(str ''ok'', JBool True)]"

text \<open>
  The reads of \<open>channel_webhook\<close>: the event type (line 58), the sender type (line 61)
  and the chat id of the two cancelling branches (lines 65 and 70).
\<close>

definition event_type :: "json \<Rightarrow> error + json" where
  "event_type payload =
     bind (dict_get payload (str ''event'') (JObj [])) (\<lambda>event. dict_get event (str ''type'') (JStr []))"

definition sender_type :: "json \<Rightarrow> error + json" where
  "sender_type payload =
     bind (dict_get payload (str ''entity'') (JObj []))
          (\<lambda>entity. dict_get entity (str ''personType'') (JStr []))"

definition event_chat_id :: "json \<Rightarrow> error + json" where
  "event_chat_id payload =
     bind (dict_get payload (str ''chat'') (JObj [])) (\<lambda>chat. dict_get chat (str ''id'') (JStr []))"

text \<open>The two branches of \<open>channel_webhook\<close> that cancel the timer of the event's chat.\<close>

definition cancel_for_chat :: "pylib \<Rightarrow> extern \<Rightarrow> json \<Rightarrow> world \<Rightarrow> (error + json) \<times> world" where
  "cancel_for_chat lib ext payload w =
     (case event_chat_id payload of
        Inl e \<Rightarrow> (Inl e, w)
      | Inr chat_id \<Rightarrow>
          if truthy chat_id then
            (case cancel_existing_timer lib ext chat_id w of
               (Inl e, w') \<Rightarrow> (Inl e, w')
             | (Inr u, w') \<Rightarrow> (Inr ok_response, w'))
          else (Inr ok_response, w))"

definition channel_webhook ::
  "config \<Rightarrow> pylib \<Rightarrow> extern \<Rightarrow> bytes \<Rightarrow> world \<Rightarrow> (error + json) \<times> world" where
  "channel_webhook cfg lib ext request_body w =
     (case json_loads lib request_body of
        None \<Rightarrow> (Inl JSONDecodeError, w)
      | Some payload \<Rightarrow>
     (case event_type payload of
        Inl e \<Rightarrow> (Inl e, w)
      | Inr etype \<Rightarrow>
          if etype = JStr (str ''chat_message_created'') then
            (case sender_type payload of
               Inl e \<Rightarrow> (Inl e, w)
             | Inr stype \<Rightarrow>
                 if stype = JStr (str ''user'') then
                   (case handle_customer_message cfg lib ext payload w of
                      (Inl e, w') \<Rightarrow> (Inl e, w')
                    | (Inr u, w') \<Rightarrow> (Inr ok_response, w'))
                 else if stype = JStr (str ''member'') then cancel_for_chat lib ext payload w
                 else (Inr ok_response, w))
          else if etype = JStr (str ''chat_assigned'') then cancel_for_chat lib ext payload w
          else (Inr ok_response, w)))"

text \<open>The request of the fire callback: its raw body and its \<open>upstash-signature\<close> header.\<close>

record alert_request =
  body :: bytes
  upstash_signature :: "pystr option"

text \<open>The literals of the two message templates, by code point.\<close>

definition unknown_title :: pystr where
  "unknown_title = [0xC54C, 0x20, 0xC218, 0x20, 0xC5C6, 0xC74C]"

definition line_room :: pystr where
  "line_room = [0x3E, 0x20, 0xCC44, 0xD305, 0xBC29, 0x3A, 0x20]"

definition line_customer :: pystr where
  "line_customer = [0x3E, 0x20, 0xACE0, 0xAC1D, 0x3A, 0x20]"

definition line_last :: pystr where
  "line_last = [0x3E, 0x20, 0xB9C8, 0xC9C0, 0xB9C9, 0x20, 0xBA54, 0xC2DC, 0xC9C0, 0x3A, 0x20]"

definition head_unassigned :: pystr where
  "head_unassigned = [0x1F534, 0x20, 0x2A, 0xBBF8, 0xBC30, 0xC815, 0x20, 0xBB38, 0xC758, 0x20,
                      0xBBF8, 0xC751, 0xB2F5, 0x20, 0xC54C, 0xB9BC, 0x2A, 0x0A]"

definition head_my_chat :: pystr where
  "head_my_chat = [0x1F7E1, 0x20, 0x2A, 0xB0B4, 0x20, 0xBB38, 0xC758, 0x20,
                   0xBBF8, 0xC751, 0xB2F5, 0x20, 0xC54C, 0xB9BC, 0x2A, 0x0A]"

text \<open>The last line: a clock, the number of minutes, and the fixed words after it.\<close>

definition line_minutes :: "pystr \<Rightarrow> pystr" where
  "line_minutes n = [0x3E, 0x20, 0x23F0, 0x20] @ n @
     [0xBD84, 0xC9F8, 0x20, 0xBBF8, 0xC751, 0xB2F5, 0x20, 0xC911, 0xC785, 0xB2C8, 0xB2E4, 0x21]"

definition alert_text :: "pystr \<Rightarrow> pystr \<Rightarrow> pystr \<Rightarrow> pystr \<Rightarrow> pystr \<Rightarrow> pystr" where
  "alert_text head minutes chat_title customer_name msg_preview =
     head @ line_room @ chat_title @ [0x0A] @ line_customer @ customer_name @ [0x0A]
       @ line_last @ msg_preview @ [0x0A] @ line_minutes minutes"

text \<open>
  The client of line 21, \<open>QStash(token=QSTASH_TOKEN)\<close>, and what its attribute
  \<open>receiver\<close> gives. A \<open>QStash\<close> client has the attributes of the publishing
  interface and none of this name: the verifier of the library is a class of its own,
  \<open>Receiver\<close>, made from the signing keys, and \<open>main.py\<close> neither imports it nor
  reads a signing key. So \<open>qstash.receiver\<close> raises \<open>AttributeError\<close>.
\<close>

definition qstash_receiver :: "(pystr \<Rightarrow> pystr \<Rightarrow> pystr \<Rightarrow> bool) option" where
  "qstash_receiver = None"

text \<open>
  The signature check of \<open>receive_alert\<close>, lines 117 to 122: \<open>qstash.receiver.verify\<close>
  is evaluated first, then the body is decoded, then the verifier is called; all of it
  is inside the \<open>try\<close>.
\<close>

definition verify_request :: "config \<Rightarrow> pylib \<Rightarrow> extern \<Rightarrow> alert_request \<Rightarrow> error + unit" where
  "verify_request cfg lib ext req =
     (case qstash_receiver of
        None \<Rightarrow> Inl AttributeError
      | Some verify \<Rightarrow>
     (case bytes_decode lib (body req) of
        None \<Rightarrow> Inl UnicodeDecodeError
      | Some text \<Rightarrow>
          if verify text (case upstash_signature req of None \<Rightarrow> [] | Some s \<Rightarrow> s)
               (BASE_URL cfg @ str ''/alert'')
          then Inr () else Inl VerifyError))"

text \<open>Lines 127 to 130: the kind, and the three texts as the f-strings put them.\<close>

definition alert_fields :: "pylib \<Rightarrow> json \<Rightarrow> error + (json \<times> pystr \<times> pystr \<times> pystr)" where
  "alert_fields lib data =
     bind (dict_get data (str ''type'') JNull) (\<lambda>alert_type.
     bind (dict_get data (str ''chat_title'') (JStr unknown_title)) (\<lambda>chat_title.
     bind (dict_get data (str ''customer_name'') (JStr default_customer)) (\<lambda>customer_name.
     bind (dict_get data (str ''msg_preview'') (JStr [])) (\<lambda>msg_preview.
     Inr (alert_type, py_format lib chat_title, py_format lib customer_name,
          py_format lib msg_preview)))))"

text \<open>Lines 132 to 149: the message of the kind, \<open>None\<close> where the handler returns at once.\<close>

definition render_alert :: "json \<Rightarrow> pystr \<Rightarrow> pystr \<Rightarrow> pystr \<Rightarrow> pystr option" where
  "render_alert alert_type chat_title customer_name msg_preview =
     (if alert_type = JStr (str ''unassigned'') then
        Some (alert_text head_unassigned (str ''5'') chat_title customer_name msg_preview)
      else if alert_type = JStr (str ''my_chat'') then
        Some (alert_text head_my_chat (str ''3'') chat_title customer_name msg_preview)
      else None)"

text \<open>Lines 126 to 152 of \<open>receive_alert\<close>: what follows the signature check.\<close>

definition dispatch_alert ::
  "config \<Rightarrow> pylib \<Rightarrow> extern \<Rightarrow> bytes \<Rightarrow> world \<Rightarrow> (error + json) \<times> world" where
  "dispatch_alert cfg lib ext request_body w =
     (case json_loads lib request_body of
        None \<Rightarrow> (Inl JSONDecodeError, w)
      | Some data \<Rightarrow>
     (case alert_fields lib data of
        Inl e \<Rightarrow> (Inl e, w)
      | Inr (alert_type, chat_title, customer_name, msg_preview) \<Rightarrow>
     (case render_alert alert_type chat_title customer_name msg_preview of
        None \<Rightarrow> (Inr ok_response, w)
      | Some msg \<Rightarrow>
          (case send_slack cfg ext msg w of
             (Inl e, w') \<Rightarrow> (Inl e, w')
           | (Inr u, w') \<Rightarrow> (Inr ok_response, w')))))"

definition receive_alert ::
  "config \<Rightarrow> pylib \<Rightarrow> extern \<Rightarrow> alert_request \<Rightarrow> world \<Rightarrow> (error + json) \<times> world" where
  "receive_alert cfg lib ext req w =
     (case verify_request cfg lib ext req of
        Inl e \<Rightarrow> (Inl (HTTPException 401 (str ''Invalid signature'')), w)
      | Inr u \<Rightarrow> dispatch_alert cfg lib ext (body req) w)"

section \<open>Runs of requests\<close>

text \<open>
  The application serves its two endpoints one request after the other; a request that
  fails leaves the effects it had made, and the next one is served all the same.
\<close>

datatype request = WebhookChannel bytes | Alert alert_request

definition serve ::
  "config \<Rightarrow> pylib \<Rightarrow> extern \<Rightarrow> request \<Rightarrow> world \<Rightarrow> (error + json) \<times> world" where
  "serve cfg lib ext rq w =
     (case rq of WebhookChannel b \<Rightarrow> channel_webhook cfg lib ext b w
               | Alert a \<Rightarrow> receive_alert cfg lib ext a w)"

fun run_requests :: "config \<Rightarrow> pylib \<Rightarrow> (extern \<times> request) list \<Rightarrow> world \<Rightarrow> world" where
  "run_requests cfg lib [] w = w"
| "run_requests cfg lib ((ext, rq) # rqs) w = run_requests cfg lib rqs (snd (serve cfg lib ext rq w))"

text \<open>
  The handles written under a key and not removed since, followed along the calls made
  to the registry: a set adds its handle to those that are there, a delete removes them
  all. \<open>at_most_one_recorded\<close> says that before and after every call of a sequence there
  is at most one.
\<close>

fun recorded_after :: "pystr \<Rightarrow> call \<Rightarrow> pystr list \<Rightarrow> pystr list" where
  "recorded_after key (RedisSet k v ex) hs = (if k = key then v # hs else hs)"
| "recorded_after key (RedisDelete k) hs = (if k = key then [] else hs)"
| "recorded_after key (RedisGet k) hs = hs"
| "recorded_after key (QCancel m) hs = hs"
| "recorded_after key (QPublish u b d) hs = hs"
| "recorded_after key (SlackPost u m) hs = hs"
| "recorded_after key (Failed c) hs = hs"

fun at_most_one_recorded :: "pystr \<Rightarrow> call list \<Rightarrow> pystr list \<Rightarrow> bool" where
  "at_most_one_recorded key [] hs = (length hs \<le> 1)"
| "at_most_one_recorded key (c # cs) hs =
     (length hs \<le> 1 \<and> at_most_one_recorded key cs (recorded_after key c hs))"

definition recorded_handles :: "world \<Rightarrow> pystr \<Rightarrow> pystr list" where
  "recorded_handles w key = (case registry w key of None \<Rightarrow> [] | Some (msg_id, ex) \<Rightarrow> [msg_id])"

definition new_calls :: "world \<Rightarrow> world \<Rightarrow> call list" where
  "new_calls w w' = drop (length (calls w)) (calls w')"

text \<open>
  The delayed-delivery service names every delivery by a message id that is not the empty
  string. \<open>handles_nonempty\<close> says so of the registry, \<open>ids_nonempty\<close> of the answers to
  the scheduling calls of a request.
\<close>

definition handles_nonempty :: "world \<Rightarrow> bool" where
  "handles_nonempty w = (\<forall>key msg_id ex. registry w key = Some (msg_id, ex) \<longrightarrow> msg_id \<noteq> [])"

definition ids_nonempty :: "extern \<Rightarrow> bool" where
  "ids_nonempty ext = (\<forall>url b d. publish_json ext url b d \<noteq> Some [])"

definition run_ids_nonempty :: "(extern \<times> request) list \<Rightarrow> bool" where
  "run_ids_nonempty rqs = (\<forall>(ext, rq) \<in> set rqs. ids_nonempty ext)"

text \<open>
  A world \<open>w'\<close> reached from \<open>w\<close> is coherent for a key when it extends the calls of
  \<open>w\<close>, the handles recorded under the key never exceed one along the new calls, and
  the handles left at the end are those the registry of \<open>w'\<close> holds.
\<close>

definition coherent :: "pystr \<Rightarrow> world \<Rightarrow> world \<Rightarrow> bool" where
  "coherent key w w' =
     (calls w' = calls w @ new_calls w w'
      \<and> at_most_one_recorded key (new_calls w w') (recorded_handles w key)
      \<and> fold (recorded_after key) (new_calls w w') (recorded_handles w key) = recorded_handles w' key)"

text \<open>
  The answers of a request under which no call to the registry raises, and the calls of
  a request that raised an exception nothing catches: a failed call to the registry, a
  scheduling or a post that raised. (An exception of the upstream cancel is caught.)
\<close>

definition registry_returns :: "extern \<Rightarrow> bool" where
  "registry_returns ext = (\<forall>c. \<not> registry_raises ext c)"

fun uncaught :: "extern \<Rightarrow> call \<Rightarrow> bool" where
  "uncaught ext (Failed c) = True"
| "uncaught ext (QPublish u b d) = (publish_json ext u b d = None)"
| "uncaught ext (SlackPost u m) = (sink_post ext u m = None)"
| "uncaught ext (RedisGet k) = False"
| "uncaught ext (RedisDelete k) = False"
| "uncaught ext (RedisSet k v ex) = False"
| "uncaught ext (QCancel m) = False"

text \<open>The exceptions of reading a member of the event that has not the shape read.\<close>

definition read_error :: "error + 'a \<Rightarrow> bool" where
  "read_error r = (r = Inl AttributeError \<or> r = Inl TypeError)"

section \<open>Well-shaped events\<close>

text \<open>
  The shape of the events the chat platform sends: the payload is an object; its members
  \<open>event\<close>, \<open>entity\<close>, \<open>chat\<close> and \<open>user\<close>, where present, are objects; the
  \<open>plainText\<close> of the entity, where present, is a string, a list or a value that is
  false; the \<open>assignee\<close> of the chat, where present, is null or an object.
\<close>

definition member_is_object :: "json \<Rightarrow> pystr \<Rightarrow> bool" where
  "member_is_object obj k = (case dict_get obj k (JObj []) of Inr (JObj kv) \<Rightarrow> True | _ \<Rightarrow> False)"

definition well_shaped :: "json \<Rightarrow> bool" where
  "well_shaped payload =
     (member_is_object payload (str ''event'') \<and> member_is_object payload (str ''entity'')
      \<and> member_is_object payload (str ''chat'') \<and> member_is_object payload (str ''user'')
      \<and> (case bind (dict_get payload (str ''entity'') (JObj []))
                    (\<lambda>message. dict_get message (str ''plainText'') (JStr [])) of
            Inl e \<Rightarrow> False
          | Inr (JStr s) \<Rightarrow> True
          | Inr (JArr xs) \<Rightarrow> True
          | Inr v \<Rightarrow> \<not> truthy v)
      \<and> (case bind (dict_get payload (str ''chat'') (JObj []))
                    (\<lambda>chat. dict_get chat (str ''assignee'') JNull) of
            Inr JNull \<Rightarrow> True
          | Inr (JObj kv) \<Rightarrow> True
          | _ \<Rightarrow> False))"

section \<open>Example values\<close>

text \<open>
  A configuration with operating hours from 09:00 to 18:00, a library that reads the
  bodies of a small table, collaborators that give fixed answers and a registry client
  that answers, a registry that holds the timer \<open>msg_1\<close> of the chat \<open>c1\<close> (and one
  that holds the timer of a second chat too), events of the chat \<open>c1\<close> and events
  that carry no chat id.
\<close>

definition example_config :: config where
  "example_config =
     \<lparr>SLACK_WEBHOOK_URL = str ''https://hooks.example/T'', MY_MEMBER_ID = str ''m1'',
      OPERATION_START = (9, 0, 0, 0), OPERATION_END = (18, 0, 0, 0),
      BASE_URL = str ''https://app.example''\<rparr>"

definition example_lib :: "(bytes \<times> json) list \<Rightarrow> pylib" where
  "example_lib table =
     \<lparr>bytes_decode = (\<lambda>b. Some (str b)), json_loads = map_of table,
      format_value = (\<lambda>v. str ''None'')\<rparr>"

definition example_extern :: "time \<Rightarrow> bool \<Rightarrow> pystr option \<Rightarrow> nat option \<Rightarrow> extern" where
  "example_extern now raises message_id status =
     \<lparr>clock_now = now, registry_raises = (\<lambda>c. False), cancel_raises = (\<lambda>m. raises),
      publish_json = (\<lambda>u b d. message_id), sink_post = (\<lambda>u m. status)\<rparr>"

definition example_extern_down :: "time \<Rightarrow> extern" where
  "example_extern_down now =
     \<lparr>clock_now = now, registry_raises = (\<lambda>c. True), cancel_raises = (\<lambda>m. False),
      publish_json = (\<lambda>u b d. Some (str ''msg_2'')), sink_post = (\<lambda>u m. Some 200)\<rparr>"

definition example_world :: world where
  "example_world = \<lparr>registry = [str ''timer:c1'' \<mapsto> (str ''msg_1'', 360)], calls = []\<rparr>"

definition example_world_two :: world where
  "example_world_two =
     \<lparr>registry = [str ''timer:c1'' \<mapsto> (str ''msg_1'', 360), str ''timer:c2'' \<mapsto> (str ''msg_7'', 240)],
      calls = []\<rparr>"


definition example_customer_message :: "json \<Rightarrow> json" where
  "example_customer_message assignee =
     JObj [(str ''event'', JObj [(str ''type'', JStr (str ''chat_message_created''))]),
           (str ''entity'', JObj [(str ''personType'', JStr (str ''user'')),
                                  (str ''plainText'', JStr (str ''hello''))]),
           (str ''chat'', JObj [(str ''id'', JStr (str ''c1'')), (str ''name'', JStr (str ''Billing'')),
                                (str ''assignee'', assignee)]),
           (str ''user'', JObj [(str ''name'', JStr (str ''Kim''))])]"

definition example_member_message :: json where
  "example_member_message =
     JObj [(str ''event'', JObj [(str ''type'', JStr (str ''chat_message_created''))]),
           (str ''entity'', JObj [(str ''personType'', JStr (str ''member''))]),
           (str ''chat'', JObj [(str ''id'', JStr (str ''c1''))])]"

definition example_customer_without_id :: json where
  "example_customer_without_id =
     JObj [(str ''event'', JObj [(str ''type'', JStr (str ''chat_message_created''))]),
           (str ''entity'', JObj [(str ''personType'', JStr (str ''user'')),
                                  (str ''plainText'', JStr (str ''hello''))]),
           (str ''user'', JObj [(str ''name'', JStr (str ''Kim''))])]"

definition example_member_without_id :: json where
  "example_member_without_id =
     JObj [(str ''event'', JObj [(str ''type'', JStr (str ''chat_message_created''))]),
           (str ''entity'', JObj [(str ''personType'', JStr (str ''member''))])]"

definition example_alert :: "pystr \<Rightarrow> json" where
  "example_alert kind =
     JObj [(str ''type'', JStr kind),
           (str ''chat_id'', JStr (str ''c1'')),
           (str ''chat_title'', JStr (str ''Billing'')),
           (str ''customer_name'', JStr (str ''Kim'')),
           (str ''msg_preview'', JStr (str ''hello''))]"

definition example_table :: "(bytes \<times> json) list" where
  "example_table =
     [(''customer'', example_customer_message JNull),
      (''member'', example_member_message),
      (''alert'', example_alert (str ''unassigned'')),
      (''later'', example_alert (str ''resolved'')),
      (''customer_without_id'', example_customer_without_id),
      (''member_without_id'', example_member_without_id),
      (''[]'', JArr [])]"

definition example_request :: "bytes \<Rightarrow> alert_request" where
  "example_request b = \<lparr>body = b, upstash_signature = Some (str ''sig'')\<rparr>"

definition example_run :: "(extern \<times> request) list" where
  "example_run =
     [(example_extern (10, 0, 0, 0) False (Some (str ''msg_2'')) None, WebhookChannel ''customer''),
      (example_extern (10, 5, 0, 0) True (Some (str ''msg_3'')) None, WebhookChannel ''customer''),
      (example_extern (10, 6, 0, 0) False None None, WebhookChannel ''member''),
      (example_extern (10, 9, 0, 0) False None (Some 200), Alert (example_request ''alert''))]"

section \<open>Requests and the calls they make\<close>

text \<open>
  The result of a handler follows the calls it made: they extend the calls made before,
  and, unless the handler failed on reading the event, it returned if and only if none of
  its calls raised an exception that nothing catches; the only exceptions of calls are
  those of the scheduling and of the registry.
\<close>

definition tracked :: "extern \<Rightarrow> world \<Rightarrow> (error + 'a) \<times> world \<Rightarrow> bool" where
  "tracked ext w r =
     (calls (snd r) = calls w @ new_calls w (snd r)
      \<and> (read_error (fst r)
         \<or> (((\<exists>v. fst r = Inr v) \<longleftrightarrow> \<not> list_ex (uncaught ext) (new_calls w (snd r)))
            \<and> ((\<exists>v. fst r = Inr v) \<or> fst r = Inl PublishError \<or> fst r = Inl RegistryError))))"

section \<open>Cancelling and arming\<close>

lemma cancel_cases:
  assumes "\<And>m x. registry w (timer_key lib chat_id) = Some (m, x) \<Longrightarrow> m \<noteq> []"
  shows "cancel_existing_timer lib ext chat_id w =
     (if registry_raises ext (RedisGet (timer_key lib chat_id))
      then (Inl RegistryError, w\<lparr>calls := calls w @ [Failed (RedisGet (timer_key lib chat_id))]\<rparr>)
      else case registry w (timer_key lib chat_id) of
        None \<Rightarrow> (Inr (), w\<lparr>calls := calls w @ [RedisGet (timer_key lib chat_id)]\<rparr>)
      | Some (m, x) \<Rightarrow>
          if registry_raises ext (RedisDelete (timer_key lib chat_id))
          then (Inl RegistryError,
                w\<lparr>calls := calls w @ [RedisGet (timer_key lib chat_id), QCancel m,
                                    Failed (RedisDelete (timer_key lib chat_id))]\<rparr>)
          else (Inr (),
                w\<lparr>registry := (registry w)(timer_key lib chat_id := None),
                  calls := calls w @ [RedisGet (timer_key lib chat_id), QCancel m,
                                      RedisDelete (timer_key lib chat_id)]\<rparr>))"
  using assms
  by (cases "registry w (timer_key lib chat_id)")
     (auto simp: cancel_existing_timer_def redis_get_def qstash_cancel_def redis_delete_def
        record_call_def)

lemma cancel_empty_handle:
  "registry w (timer_key lib chat_id) = Some ([], ex) \<Longrightarrow>
   \<not> registry_raises ext (RedisGet (timer_key lib chat_id)) \<Longrightarrow>
   cancel_existing_timer lib ext chat_id w = (Inr (), record_call (RedisGet (timer_key lib chat_id)) w)"
  by (simp add: cancel_existing_timer_def redis_get_def)

lemma schedule_timer_unfold:
  "schedule_timer cfg lib ext chat_id d p w =
     (case cancel_existing_timer lib ext chat_id w of
        (Inl e, w1) \<Rightarrow> (Inl e, w1)
      | (Inr u, w1) \<Rightarrow>
          (case publish_json ext (BASE_URL cfg @ str ''/alert'') p d of
             None \<Rightarrow> (Inl PublishError, w1\<lparr>calls := calls w1 @ [QPublish (BASE_URL cfg @ str ''/alert'') p d]\<rparr>)
           | Some m \<Rightarrow>
               if registry_raises ext (RedisSet (timer_key lib chat_id) m (d + 60))
               then (Inl RegistryError,
                     w1\<lparr>calls := calls w1 @ [QPublish (BASE_URL cfg @ str ''/alert'') p d,
                                           Failed (RedisSet (timer_key lib chat_id) m (d + 60))]\<rparr>)
               else (Inr (),
                     w1\<lparr>registry := (registry w1)(timer_key lib chat_id \<mapsto> (m, d + 60)),
                        calls := calls w1 @ [QPublish (BASE_URL cfg @ str ''/alert'') p d,
                                           RedisSet (timer_key lib chat_id) m (d + 60)]\<rparr>)))"
  by (simp add: schedule_timer_def qstash_publish_json_def redis_set_def record_call_def
      split: option.splits prod.splits sum.splits)

section \<open>Strings and texts\<close>

lemma str_event_types: "str ''chat_assigned'' \<noteq> str ''chat_message_created''"
  by (simp add: str_def)

lemma str_sender_types: "str ''member'' \<noteq> str ''user''"
  by (simp add: str_def)

lemma sublist_alert_text:
  "sublist chat_title (alert_text head minutes chat_title customer_name msg_preview)"
  "sublist customer_name (alert_text head minutes chat_title customer_name msg_preview)"
  "sublist msg_preview (alert_text head minutes chat_title customer_name msg_preview)"
  "sublist minutes (alert_text head minutes chat_title customer_name msg_preview)"
proof -
  let ?t = "alert_text head minutes chat_title customer_name msg_preview"
  have "?t = (head @ line_room) @ chat_title @ ([0x0A] @ line_customer @ customer_name @ [0x0A]
       @ line_last @ msg_preview @ [0x0A] @ line_minutes minutes)"
    by (simp add: alert_text_def)
  then show "sublist chat_title ?t" unfolding sublist_def by blast
  have "?t = (head @ line_room @ chat_title @ [0x0A] @ line_customer) @ customer_name @ ([0x0A]
       @ line_last @ msg_preview @ [0x0A] @ line_minutes minutes)"
    by (simp add: alert_text_def)
  then show "sublist customer_name ?t" unfolding sublist_def by blast
  have "?t = (head @ line_room @ chat_title @ [0x0A] @ line_customer @ customer_name @ [0x0A]
       @ line_last) @ msg_preview @ ([0x0A] @ line_minutes minutes)"
    by (simp add: alert_text_def)
  then show "sublist msg_preview ?t" unfolding sublist_def by blast
  have "?t = (head @ line_room @ chat_title @ [0x0A] @ line_customer @ customer_name @ [0x0A]
       @ line_last @ msg_preview @ [0x0A] @ [0x3E, 0x20, 0x23F0, 0x20]) @ minutes @
       [0xBD84, 0xC9F8, 0x20, 0xBBF8, 0xC751, 0xB2F5, 0x20, 0xC911, 0xC785, 0xB2C8, 0xB2E4, 0x21]"
    by (simp add: alert_text_def line_minutes_def)
  then show "sublist minutes ?t" unfolding sublist_def by blast
qed

section \<open>The registry along a run\<close>

lemma at_most_one_length: "at_most_one_recorded key cs hs \<Longrightarrow> length hs \<le> 1"
  by (cases cs) simp_all

lemma at_most_one_append:
  "at_most_one_recorded key (cs @ ds) hs =
     (at_most_one_recorded key cs hs \<and> at_most_one_recorded key ds (fold (recorded_after key) cs hs))"
proof (induction cs arbitrary: hs)
  case Nil
  show ?case using at_most_one_length [of key ds hs] by auto
next
  case (Cons c cs)
  then show ?case by simp
qed

lemma recorded_handles_length: "length (recorded_handles w key) \<le> 1"
  by (simp add: recorded_handles_def split: option.splits prod.splits)

lemma coherent_refl: "coherent key w w"
  using recorded_handles_length [of w key] by (simp add: coherent_def new_calls_def)

lemma coherent_trans:
  assumes "coherent key w w1" and "coherent key w1 w2"
  shows "coherent key w w2"
proof -
  have c1: "calls w1 = calls w @ new_calls w w1" and c2: "calls w2 = calls w1 @ new_calls w1 w2"
    using assms by (simp_all add: coherent_def)
  have n: "new_calls w w2 = new_calls w w1 @ new_calls w1 w2"
  proof -
    have "calls w2 = calls w @ (new_calls w w1 @ new_calls w1 w2)"
      using c1 c2 by simp
    then show ?thesis by (simp add: new_calls_def [of w w2])
  qed
  show ?thesis
    using assms c1 c2 unfolding coherent_def n by (simp add: at_most_one_append)
qed

lemma coherent_appended:
  assumes "calls w' = calls w @ cs"
    and "at_most_one_recorded key cs (recorded_handles w key)"
    and "fold (recorded_after key) cs (recorded_handles w key) = recorded_handles w' key"
  shows "coherent key w w'"
  using assms by (simp add: coherent_def new_calls_def)

lemma handles_nonempty_at:
  "handles_nonempty w \<Longrightarrow> registry w k = Some (m, x) \<Longrightarrow> m \<noteq> []"
  by (auto simp: handles_nonempty_def)

text \<open>
  After \<open>cancel_existing_timer\<close> the world is coherent with the one before, its handles
  are not empty, and where the function returned the entry of the chat is gone.
\<close>

lemma cancel_invariant:
  assumes "handles_nonempty w"
  shows "coherent key w (snd (cancel_existing_timer lib ext chat_id w))
       \<and> handles_nonempty (snd (cancel_existing_timer lib ext chat_id w))
       \<and> (fst (cancel_existing_timer lib ext chat_id w) = Inr () \<longrightarrow>
            registry (snd (cancel_existing_timer lib ext chat_id w)) (timer_key lib chat_id) = None)"
proof -
  let ?k = "timer_key lib chat_id"
  note c = cancel_cases [of w lib chat_id ext, OF handles_nonempty_at [OF assms]]
  consider (a) "registry_raises ext (RedisGet ?k)"
    | (b) "\<not> registry_raises ext (RedisGet ?k)" "registry w ?k = None"
    | (c) m x where "\<not> registry_raises ext (RedisGet ?k)" "registry w ?k = Some (m, x)"
        "registry_raises ext (RedisDelete ?k)"
    | (d) m x where "\<not> registry_raises ext (RedisGet ?k)" "registry w ?k = Some (m, x)"
        "\<not> registry_raises ext (RedisDelete ?k)"
    by (cases "registry w ?k") auto
  then show ?thesis
  proof cases
    case a
    have "coherent key w (w\<lparr>calls := calls w @ [Failed (RedisGet ?k)]\<rparr>)"
      by (rule coherent_appended [where cs = "[Failed (RedisGet ?k)]"])
         (simp_all add: recorded_handles_def split: option.splits)
    then show ?thesis using a assms by (simp add: c handles_nonempty_def)
  next
    case b
    have "coherent key w (w\<lparr>calls := calls w @ [RedisGet ?k]\<rparr>)"
      by (rule coherent_appended [where cs = "[RedisGet ?k]"])
         (simp_all add: recorded_handles_def split: option.splits)
    then show ?thesis using b assms by (simp add: c handles_nonempty_def)
  next
    case c1: c
    have "coherent key w (w\<lparr>calls := calls w @ [RedisGet ?k, QCancel m, Failed (RedisDelete ?k)]\<rparr>)"
      by (rule coherent_appended [where cs = "[RedisGet ?k, QCancel m, Failed (RedisDelete ?k)]"])
         (simp_all add: recorded_handles_def split: option.splits)
    then show ?thesis using c1 assms by (simp add: c handles_nonempty_def)
  next
    case d
    have "coherent key w (w\<lparr>registry := (registry w)(?k := None),
            calls := calls w @ [RedisGet ?k, QCancel m, RedisDelete ?k]\<rparr>)"
      by (rule coherent_appended [where cs = "[RedisGet ?k, QCancel m, RedisDelete ?k]"])
         (simp_all add: recorded_handles_def split: option.splits)
    then show ?thesis using d assms by (simp add: c handles_nonempty_def)
  qed
qed

lemma schedule_timer_invariant:
  assumes "handles_nonempty w" and "ids_nonempty ext"
  shows "coherent key w (snd (schedule_timer cfg lib ext chat_id d p w))
       \<and> handles_nonempty (snd (schedule_timer cfg lib ext chat_id d p w))"
proof -
  let ?u = "BASE_URL cfg @ str ''/alert''"
  let ?k = "timer_key lib chat_id"
  obtain r w1 where c: "cancel_existing_timer lib ext chat_id w = (r, w1)"
    by (cases "cancel_existing_timer lib ext chat_id w")
  have i: "coherent key w w1" "handles_nonempty w1" "r = Inr () \<Longrightarrow> registry w1 ?k = None"
    using cancel_invariant [OF assms(1), of key lib ext chat_id] c by simp_all
  show ?thesis
  proof (cases r)
    case (Inl e)
    then show ?thesis using c i by (simp add: schedule_timer_unfold)
  next
    case (Inr u)
    then have n: "registry w1 ?k = None" using i(3) by simp
    show ?thesis
    proof (cases "publish_json ext ?u p d")
      case None
      have "coherent key w1 (w1\<lparr>calls := calls w1 @ [QPublish ?u p d]\<rparr>)"
        by (rule coherent_appended [where cs = "[QPublish ?u p d]"])
           (simp_all add: recorded_handles_def split: option.splits)
      then have "coherent key w (w1\<lparr>calls := calls w1 @ [QPublish ?u p d]\<rparr>)"
        using coherent_trans [OF i(1)] by blast
      then show ?thesis using c Inr None i(2)
        by (simp add: schedule_timer_unfold handles_nonempty_def)
    next
      case (Some m)
      have ne: "m \<noteq> []" using assms(2) Some by (auto simp: ids_nonempty_def)
      show ?thesis
      proof (cases "registry_raises ext (RedisSet ?k m (d + 60))")
        case True
        have "coherent key w1 (w1\<lparr>calls := calls w1 @ [QPublish ?u p d, Failed (RedisSet ?k m (d + 60))]\<rparr>)"
          by (rule coherent_appended [where cs = "[QPublish ?u p d, Failed (RedisSet ?k m (d + 60))]"])
             (simp_all add: recorded_handles_def split: option.splits)
        then have "coherent key w (w1\<lparr>calls := calls w1 @ [QPublish ?u p d, Failed (RedisSet ?k m (d + 60))]\<rparr>)"
          using coherent_trans [OF i(1)] by blast
        then show ?thesis using c Inr Some True i(2)
          by (simp add: schedule_timer_unfold handles_nonempty_def)
      next
        case False
        have "coherent key w1 (w1\<lparr>registry := (registry w1)(?k \<mapsto> (m, d + 60)),
                calls := calls w1 @ [QPublish ?u p d, RedisSet ?k m (d + 60)]\<rparr>)"
          by (rule coherent_appended [where cs = "[QPublish ?u p d, RedisSet ?k m (d + 60)]"])
             (use n in \<open>auto simp: recorded_handles_def split: option.splits\<close>)
        then have "coherent key w (w1\<lparr>registry := (registry w1)(?k \<mapsto> (m, d + 60)),
                calls := calls w1 @ [QPublish ?u p d, RedisSet ?k m (d + 60)]\<rparr>)"
          using coherent_trans [OF i(1)] by blast
        then show ?thesis using c Inr Some False i(2) ne
          by (simp add: schedule_timer_unfold handles_nonempty_def)
      qed
    qed
  qed
qed

lemma snd_relabel:
  "snd (case r of (Inl e, w') \<Rightarrow> (Inl e, w') | (Inr u, w') \<Rightarrow> (Inr v, w')) = snd r"
  by (cases r) (simp split: sum.splits)

lemma fst_relabel:
  "fst (case r of (Inl e, w') \<Rightarrow> (Inl e, w') | (Inr u, w') \<Rightarrow> (Inr v, w')) =
     (case fst r of Inl e \<Rightarrow> Inl e | Inr u \<Rightarrow> Inr v)"
  by (cases r) (simp split: sum.splits)

lemma handle_customer_message_invariant:
  assumes "handles_nonempty w" and "ids_nonempty ext"
  shows "coherent key w (snd (handle_customer_message cfg lib ext payload w))
       \<and> handles_nonempty (snd (handle_customer_message cfg lib ext payload w))"
  using assms schedule_timer_invariant [OF assms]
  by (auto simp: handle_customer_message_def coherent_refl split: sum.splits prod.splits)

lemma cancel_for_chat_invariant:
  assumes "handles_nonempty w"
  shows "coherent key w (snd (cancel_for_chat lib ext payload w))
       \<and> handles_nonempty (snd (cancel_for_chat lib ext payload w))"
proof -
  have "snd (cancel_for_chat lib ext payload w) = w
      \<or> (\<exists>c. snd (cancel_for_chat lib ext payload w) = snd (cancel_existing_timer lib ext c w))"
    by (auto simp: cancel_for_chat_def snd_relabel split: sum.splits)
  then show ?thesis
    using assms coherent_refl [of key w] cancel_invariant [OF assms, of key lib ext] by metis
qed

lemma channel_webhook_world:
  "snd (channel_webhook cfg lib ext b w) = w
   \<or> (\<exists>payload. snd (channel_webhook cfg lib ext b w) = snd (handle_customer_message cfg lib ext payload w))
   \<or> (\<exists>payload. snd (channel_webhook cfg lib ext b w) = snd (cancel_for_chat lib ext payload w))"
proof (cases "json_loads lib b")
  case None
  then show ?thesis by (simp add: channel_webhook_def)
next
  case (Some payload)
  have "snd (channel_webhook cfg lib ext b w) = w
      \<or> snd (channel_webhook cfg lib ext b w) = snd (handle_customer_message cfg lib ext payload w)
      \<or> snd (channel_webhook cfg lib ext b w) = snd (cancel_for_chat lib ext payload w)"
    using Some by (simp add: channel_webhook_def snd_relabel split: sum.splits)
  then show ?thesis by blast
qed

lemma channel_webhook_invariant:
  assumes "handles_nonempty w" and "ids_nonempty ext"
  shows "coherent key w (snd (channel_webhook cfg lib ext b w))
       \<and> handles_nonempty (snd (channel_webhook cfg lib ext b w))"
  using channel_webhook_world [of cfg lib ext b w] assms(1) coherent_refl [of key w]
    handle_customer_message_invariant [OF assms] cancel_for_chat_invariant [OF assms(1)]
  by metis

lemma coherent_record_slack: "coherent key w (record_call (SlackPost u m) w)"
  by (rule coherent_appended [where cs = "[SlackPost u m]"])
     (simp_all add: record_call_def recorded_handles_def split: option.splits)

lemma receive_alert_world:
  "snd (receive_alert cfg lib ext a w) = w
   \<or> (\<exists>m. snd (receive_alert cfg lib ext a w) = record_call (SlackPost (SLACK_WEBHOOK_URL cfg) m) w)"
  by (auto simp: receive_alert_def dispatch_alert_def send_slack_def
      split: sum.splits option.splits prod.splits)

lemma handles_nonempty_record: "handles_nonempty (record_call c w) = handles_nonempty w"
  by (simp add: handles_nonempty_def record_call_def)

lemma receive_alert_invariant:
  assumes "handles_nonempty w"
  shows "coherent key w (snd (receive_alert cfg lib ext a w))
       \<and> handles_nonempty (snd (receive_alert cfg lib ext a w))"
  using receive_alert_world [of cfg lib ext a w] assms coherent_refl [of key w]
    coherent_record_slack [of key w] handles_nonempty_record
  by metis

lemma serve_invariant:
  assumes "handles_nonempty w" and "ids_nonempty ext"
  shows "coherent key w (snd (serve cfg lib ext rq w))
       \<and> handles_nonempty (snd (serve cfg lib ext rq w))"
  using channel_webhook_invariant [OF assms] receive_alert_invariant [OF assms(1)]
  by (cases rq) (simp_all add: serve_def)

lemma run_requests_invariant:
  assumes "handles_nonempty w" and "\<forall>(ext, rq) \<in> set rqs. ids_nonempty ext"
  shows "coherent key w (run_requests cfg lib rqs w)
       \<and> handles_nonempty (run_requests cfg lib rqs w)"
  using assms
proof (induction rqs arbitrary: w)
  case Nil
  then show ?case by (simp add: coherent_refl)
next
  case (Cons a rqs)
  obtain ext rq where a: "a = (ext, rq)" by (cases a)
  let ?w1 = "snd (serve cfg lib ext rq w)"
  have s: "coherent key w ?w1 \<and> handles_nonempty ?w1"
    using serve_invariant [of w ext] Cons.prems a by simp
  have "coherent key ?w1 (run_requests cfg lib rqs ?w1)
      \<and> handles_nonempty (run_requests cfg lib rqs ?w1)"
    using Cons.IH [of ?w1] s Cons.prems(2) by simp
  then show ?case using s a coherent_trans by auto
qed

section \<open>Keys, cancelling and arming again\<close>

lemma timer_key_string: "timer_key lib (JStr c) = str ''timer:'' @ c"
  by (simp add: timer_key_def py_format_def)

lemma calls_cancel:
  "calls (snd (cancel_existing_timer lib ext chat_id w)) =
     calls w @ new_calls w (snd (cancel_existing_timer lib ext chat_id w))"
  by (simp add: cancel_existing_timer_def redis_get_def qstash_cancel_def redis_delete_def
      record_call_def new_calls_def split: option.splits)

lemma cancel_returns:
  assumes "registry_returns ext"
  shows "fst (cancel_existing_timer lib ext chat_id w) = Inr ()"
  using assms
  by (simp add: registry_returns_def cancel_existing_timer_def redis_get_def qstash_cancel_def
      redis_delete_def split: option.splits)

lemma schedule_timer_stored:
  assumes "registry_returns ext"
    and "publish_json ext (BASE_URL cfg @ str ''/alert'') p d = Some m"
  shows "schedule_timer cfg lib ext chat_id d p w =
          (Inr (), (snd (cancel_existing_timer lib ext chat_id w))
             \<lparr>registry := (registry (snd (cancel_existing_timer lib ext chat_id w)))
                  (timer_key lib chat_id \<mapsto> (m, d + 60)),
              calls := calls (snd (cancel_existing_timer lib ext chat_id w)) @
                  [QPublish (BASE_URL cfg @ str ''/alert'') p d,
                   RedisSet (timer_key lib chat_id) m (d + 60)]\<rparr>)"
proof -
  obtain w1 where c: "cancel_existing_timer lib ext chat_id w = (Inr (), w1)"
    using cancel_returns [OF assms(1), of lib chat_id w]
    by (cases "cancel_existing_timer lib ext chat_id w") auto
  have "\<not> registry_raises ext (RedisSet (timer_key lib chat_id) m (d + 60))"
    using assms(1) by (simp add: registry_returns_def)
  then show ?thesis using c assms(2) by (simp add: schedule_timer_unfold)
qed

lemma schedule_timer_armed:
  assumes "registry_returns ext"
  shows "QPublish (BASE_URL cfg @ str ''/alert'') p d
     \<in> set (new_calls w (snd (schedule_timer cfg lib ext chat_id d p w)))"
proof -
  obtain w1 where c: "cancel_existing_timer lib ext chat_id w = (Inr (), w1)"
    using cancel_returns [OF assms(1), of lib chat_id w]
    by (cases "cancel_existing_timer lib ext chat_id w") auto
  have w1: "calls w1 = calls w @ new_calls w w1"
    using calls_cancel [of lib ext chat_id w] c by simp
  have "\<exists>rest. calls (snd (schedule_timer cfg lib ext chat_id d p w)) =
        calls w @ (new_calls w w1 @ QPublish (BASE_URL cfg @ str ''/alert'') p d # rest)"
    using c w1 by (auto simp: schedule_timer_unfold split: option.splits)
  then show ?thesis
    by (auto simp: new_calls_def [of w "snd (schedule_timer cfg lib ext chat_id d p w)"])
qed

lemma cancel_present:
  assumes "registry w (timer_key lib chat_id) = Some (msg_id, ex)" and "msg_id \<noteq> []"
  shows "cancel_existing_timer lib ext chat_id w =
           (if registry_raises ext (RedisGet (timer_key lib chat_id)) then
              (Inl RegistryError, w\<lparr>calls := calls w @ [Failed (RedisGet (timer_key lib chat_id))]\<rparr>)
            else if registry_raises ext (RedisDelete (timer_key lib chat_id)) then
              (Inl RegistryError,
               w\<lparr>calls := calls w @ [RedisGet (timer_key lib chat_id), QCancel msg_id,
                                   Failed (RedisDelete (timer_key lib chat_id))]\<rparr>)
            else
              (Inr (),
               w\<lparr>registry := (registry w)(timer_key lib chat_id := None),
                 calls := calls w @ [RedisGet (timer_key lib chat_id), QCancel msg_id,
                                     RedisDelete (timer_key lib chat_id)]\<rparr>))"
  using assms
  by (simp add: cancel_existing_timer_def redis_get_def qstash_cancel_def redis_delete_def
      record_call_def)


section \<open>The inbound event endpoint\<close>


lemma tracked_return: "tracked ext w (Inr v, w)"
  by (simp add: tracked_def new_calls_def)

lemma tracked_read_error: "e = AttributeError \<or> e = TypeError \<Longrightarrow> tracked ext w (Inl e, w)"
  by (auto simp: tracked_def new_calls_def read_error_def)

lemma tracked_relabel:
  "tracked ext w r \<Longrightarrow>
   tracked ext w (case r of (Inl e, w') \<Rightarrow> (Inl e, w') | (Inr u, w') \<Rightarrow> (Inr v, w'))"
  by (cases r) (auto simp: tracked_def read_error_def split: sum.splits)

lemma trackedI:
  assumes "calls w' = calls w @ cs"
    and "((\<exists>v. r = Inr v) \<longleftrightarrow> \<not> list_ex (uncaught ext) cs)
         \<and> ((\<exists>v. r = Inr v) \<or> r = Inl PublishError \<or> r = Inl RegistryError)"
  shows "tracked ext w (r, w')"
  using assms by (auto simp: tracked_def new_calls_def)

lemma cancel_tracked: "tracked ext w (cancel_existing_timer lib ext chat_id w)"
proof -
  let ?k = "timer_key lib chat_id"
  show ?thesis
  proof (cases "registry_raises ext (RedisGet ?k)")
    case True
    then have "cancel_existing_timer lib ext chat_id w =
        (Inl RegistryError, w\<lparr>calls := calls w @ [Failed (RedisGet ?k)]\<rparr>)"
      by (simp add: cancel_existing_timer_def redis_get_def record_call_def)
    then show ?thesis by (simp add: trackedI [where cs = "[Failed (RedisGet ?k)]"])
  next
    case get: False
    show ?thesis
    proof (cases "registry w ?k")
      case None
      then have "cancel_existing_timer lib ext chat_id w =
          (Inr (), w\<lparr>calls := calls w @ [RedisGet ?k]\<rparr>)"
        using get by (simp add: cancel_existing_timer_def redis_get_def record_call_def)
      then show ?thesis by (simp add: trackedI [where cs = "[RedisGet ?k]"])
    next
      case (Some a)
      obtain m x where a: "a = (m, x)" by (cases a)
      show ?thesis
      proof (cases "m = []")
        case True
        then have "cancel_existing_timer lib ext chat_id w =
            (Inr (), w\<lparr>calls := calls w @ [RedisGet ?k]\<rparr>)"
          using get Some a by (simp add: cancel_existing_timer_def redis_get_def record_call_def)
        then show ?thesis by (simp add: trackedI [where cs = "[RedisGet ?k]"])
      next
        case False
        have r: "registry w ?k = Some (m, x)" using Some a by simp
        show ?thesis
        proof (cases "registry_raises ext (RedisDelete ?k)")
          case True
          then show ?thesis
            using get
            by (simp add: cancel_present [OF r False]
                  trackedI [where cs = "[RedisGet ?k, QCancel m, Failed (RedisDelete ?k)]"])
        next
          case del: False
          then show ?thesis
            using get
            by (simp add: cancel_present [OF r False]
                  trackedI [where cs = "[RedisGet ?k, QCancel m, RedisDelete ?k]"])
        qed
      qed
    qed
  qed
qed

lemma tracked_then:
  assumes "tracked ext w (Inr u, w1)" and "calls w2 = calls w1 @ cs"
    and "((\<exists>v. r = Inr v) \<longleftrightarrow> \<not> list_ex (uncaught ext) cs)
         \<and> ((\<exists>v. r = Inr v) \<or> r = Inl PublishError \<or> r = Inl RegistryError)"
  shows "tracked ext w (r, w2)"
proof -
  have w1: "calls w1 = calls w @ new_calls w w1"
    and ok: "\<not> list_ex (uncaught ext) (new_calls w w1)"
    using assms(1) by (simp_all add: tracked_def read_error_def)
  have "calls w2 = calls w @ (new_calls w w1 @ cs)" using w1 assms(2) by simp
  then show ?thesis
    using ok assms(3) by (intro trackedI [where cs = "new_calls w w1 @ cs"]) auto
qed

lemma schedule_tracked: "tracked ext w (schedule_timer cfg lib ext chat_id d p w)"
proof -
  let ?u = "BASE_URL cfg @ str ''/alert''"
  let ?k = "timer_key lib chat_id"
  obtain r w1 where c: "cancel_existing_timer lib ext chat_id w = (r, w1)"
    by (cases "cancel_existing_timer lib ext chat_id w")
  have t: "tracked ext w (r, w1)" using cancel_tracked [of ext w lib chat_id] c by simp
  show ?thesis
  proof (cases r)
    case (Inl e)
    then show ?thesis using t c by (simp add: schedule_timer_unfold)
  next
    case (Inr u)
    then have t1: "tracked ext w (Inr u, w1)" using t by simp
    show ?thesis
    proof (cases "publish_json ext ?u p d")
      case None
      then show ?thesis
        using c Inr
        by (simp add: schedule_timer_unfold tracked_then [OF t1, where cs = "[QPublish ?u p d]"])
    next
      case (Some m)
      show ?thesis
      proof (cases "registry_raises ext (RedisSet ?k m (d + 60))")
        case True
        then show ?thesis
          using c Inr Some
          by (simp add: schedule_timer_unfold
                tracked_then [OF t1, where cs = "[QPublish ?u p d, Failed (RedisSet ?k m (d + 60))]"])
      next
        case False
        then show ?thesis
          using c Inr Some
          by (simp add: schedule_timer_unfold
                tracked_then [OF t1, where cs = "[QPublish ?u p d, RedisSet ?k m (d + 60)]"])
      qed
    qed
  qed
qed

lemma dict_get_error: "dict_get j k d = Inl e \<Longrightarrow> e = AttributeError"
  by (cases j) simp_all

lemma slice50_error: "slice50 j = Inl e \<Longrightarrow> e = TypeError"
  by (cases j) simp_all

lemma bind_error:
  assumes "bind m f = Inl e"
  shows "m = Inl e \<or> (\<exists>v. m = Inr v \<and> f v = Inl e)"
  using assms by (cases m) (simp_all add: bind_def)

lemma event_type_error: "event_type payload = Inl e \<Longrightarrow> e = AttributeError"
  unfolding event_type_def by (auto dest!: bind_error dest: dict_get_error)

lemma sender_type_error: "sender_type payload = Inl e \<Longrightarrow> e = AttributeError"
  unfolding sender_type_def by (auto dest!: bind_error dest: dict_get_error)

lemma event_chat_id_error: "event_chat_id payload = Inl e \<Longrightarrow> e = AttributeError"
  unfolding event_chat_id_def by (auto dest!: bind_error dest: dict_get_error)

lemma message_fields_error:
  "message_fields payload = Inl e \<Longrightarrow> e = AttributeError \<or> e = TypeError"
  unfolding message_fields_def
  by (auto dest!: bind_error dest: dict_get_error slice50_error)

lemma handle_customer_message_tracked:
  "tracked ext w (handle_customer_message cfg lib ext payload w)"
proof (cases "is_operation_hours cfg ext")
  case False
  then show ?thesis by (simp add: handle_customer_message_def tracked_return)
next
  case True
  show ?thesis
  proof (cases "message_fields payload")
    case (Inl e)
    then show ?thesis
      using True message_fields_error [OF Inl]
      by (simp add: handle_customer_message_def tracked_read_error)
  next
    case (Inr f)
    obtain cid t c p a where f: "f = (cid, t, c, p, a)" by (cases f)
    show ?thesis
    proof (cases "a = JNull")
      case True
      then show ?thesis
        using \<open>is_operation_hours cfg ext\<close> Inr f
        by (simp add: handle_customer_message_def schedule_tracked)
    next
      case False
      show ?thesis
      proof (cases "dict_get a (str ''id'') JNull")
        case (Inl e)
        then show ?thesis
          using \<open>is_operation_hours cfg ext\<close> \<open>message_fields payload = Inr f\<close> f False
            dict_get_error [OF Inl]
          by (simp add: handle_customer_message_def tracked_read_error)
      next
        case (Inr i)
        then show ?thesis
          using \<open>is_operation_hours cfg ext\<close> \<open>message_fields payload = Inr f\<close> f False
          by (simp add: handle_customer_message_def schedule_tracked tracked_return)
      qed
    qed
  qed
qed

lemma cancel_for_chat_tracked: "tracked ext w (cancel_for_chat lib ext payload w)"
proof (cases "event_chat_id payload")
  case (Inl e)
  then show ?thesis
    using event_chat_id_error [OF Inl] by (simp add: cancel_for_chat_def tracked_read_error)
next
  case (Inr c)
  then show ?thesis
    using tracked_relabel [OF cancel_tracked [of ext w lib c], of ok_response]
    by (simp add: cancel_for_chat_def tracked_return)
qed

lemma channel_webhook_tracked:
  assumes "json_loads lib b = Some payload"
  shows "tracked ext w (channel_webhook cfg lib ext b w)"
proof (cases "event_type payload")
  case (Inl e)
  then show ?thesis
    using assms event_type_error [OF Inl] by (simp add: channel_webhook_def tracked_read_error)
next
  case et: (Inr t)
  show ?thesis
  proof (cases "t = JStr (str ''chat_message_created'')")
    case True
    show ?thesis
    proof (cases "sender_type payload")
      case (Inl e)
      then show ?thesis
        using assms et True sender_type_error [OF Inl]
        by (simp add: channel_webhook_def tracked_read_error)
    next
      case (Inr s)
      then show ?thesis
        using assms et True
          tracked_relabel [OF handle_customer_message_tracked [of ext w cfg lib payload], of ok_response]
          cancel_for_chat_tracked [of ext w lib payload]
        by (simp add: channel_webhook_def tracked_return)
    qed
  next
    case False
    then show ?thesis
      using assms et cancel_for_chat_tracked [of ext w lib payload]
      by (simp add: channel_webhook_def tracked_return)
  qed
qed

lemma channel_webhook_value:
  "fst (channel_webhook cfg lib ext b w) = Inr v \<Longrightarrow> v = ok_response"
  by (auto simp: channel_webhook_def cancel_for_chat_def fst_relabel
      split: option.splits sum.splits if_splits)

lemma well_shaped_reads:
  assumes "well_shaped payload"
  shows "\<exists>et st cid. event_type payload = Inr et \<and> sender_type payload = Inr st
           \<and> event_chat_id payload = Inr cid"
  using assms
  by (cases payload)
     (auto simp: well_shaped_def member_is_object_def event_type_def sender_type_def
        event_chat_id_def bind_def split: option.splits json.splits sum.splits)

lemma well_shaped_fields:
  assumes "well_shaped payload"
  shows "\<exists>cid t c p a. message_fields payload = Inr (cid, t, c, p, a)
           \<and> (a = JNull \<or> (\<exists>kv. a = JObj kv))"
proof -
  obtain kv where p: "payload = JObj kv" using assms
    by (cases payload) (simp_all add: well_shaped_def member_is_object_def)
  obtain chat where chat: "dict_get payload (str ''chat'') (JObj []) = Inr (JObj chat)"
    using assms by (auto simp: well_shaped_def member_is_object_def split: sum.splits json.splits)
  obtain message where message: "dict_get payload (str ''entity'') (JObj []) = Inr (JObj message)"
    using assms by (auto simp: well_shaped_def member_is_object_def split: sum.splits json.splits)
  obtain user where user: "dict_get payload (str ''user'') (JObj []) = Inr (JObj user)"
    using assms by (auto simp: well_shaped_def member_is_object_def split: sum.splits json.splits)
  obtain pt where pt: "dict_get (JObj message) (str ''plainText'') (JStr []) = Inr pt" by simp
  have "\<exists>pv. slice50 (py_or pt (JStr [])) = Inr pv"
    using assms message pt
    by (cases pt) (auto simp: well_shaped_def bind_def py_or_def)
  then obtain pv where pv: "slice50 (py_or pt (JStr [])) = Inr pv" by blast
  obtain a where a: "dict_get (JObj chat) (str ''assignee'') JNull = Inr a" by simp
  have as: "a = JNull \<or> (\<exists>kv. a = JObj kv)"
    using assms chat a by (cases a) (auto simp: well_shaped_def bind_def)
  obtain cid where cid: "dict_get (JObj chat) (str ''id'') (JStr (str ''unknown'')) = Inr cid" by simp
  obtain nm where nm: "dict_get (JObj chat) (str ''name'') JNull = Inr nm" by simp
  obtain cn where cn: "dict_get (JObj user) (str ''name'') (JStr default_customer) = Inr cn" by simp
  have "message_fields payload = Inr (cid, py_or nm cid, cn, pv, a)"
    unfolding message_fields_def by (simp only: chat message user pt pv a cid nm cn bind_def sum.case)
  then show ?thesis using as by blast
qed

lemma cancel_result:
  "fst (cancel_existing_timer lib ext chat_id w) = Inr ()
   \<or> fst (cancel_existing_timer lib ext chat_id w) = Inl RegistryError"
  by (simp add: cancel_existing_timer_def redis_get_def qstash_cancel_def redis_delete_def
      split: option.splits)

lemma schedule_result:
  "fst (schedule_timer cfg lib ext chat_id d p w) = Inr ()
   \<or> fst (schedule_timer cfg lib ext chat_id d p w) = Inl RegistryError
   \<or> fst (schedule_timer cfg lib ext chat_id d p w) = Inl PublishError"
proof -
  obtain r w1 where c: "cancel_existing_timer lib ext chat_id w = (r, w1)"
    by (cases "cancel_existing_timer lib ext chat_id w")
  have "r = Inr () \<or> r = Inl RegistryError"
    using cancel_result [of lib ext chat_id w] c by simp
  then show ?thesis
    using c by (auto simp: schedule_timer_unfold split: option.splits)
qed

text \<open>A well-shaped event is read without error.\<close>

lemma well_shaped_no_read_error:
  assumes "json_loads lib b = Some payload" and "well_shaped payload"
  shows "\<not> read_error (fst (channel_webhook cfg lib ext b w))"
proof -
  obtain et st cid where r: "event_type payload = Inr et" "sender_type payload = Inr st"
    "event_chat_id payload = Inr cid"
    using well_shaped_reads [OF assms(2)] by blast
  obtain ci t c p a where f: "message_fields payload = Inr (ci, t, c, p, a)"
    and a: "a = JNull \<or> (\<exists>kv. a = JObj kv)"
    using well_shaped_fields [OF assms(2)] by blast
  have s: "\<not> read_error (fst (schedule_timer cfg lib ext ci d q w))" for d q
    using schedule_result [of cfg lib ext ci d q w] by (auto simp: read_error_def)
  have h: "\<not> read_error (fst (handle_customer_message cfg lib ext payload w))"
  proof (cases "is_operation_hours cfg ext")
    case False
    then show ?thesis by (simp add: handle_customer_message_def read_error_def)
  next
    case True
    from a show ?thesis
    proof
      assume "a = JNull"
      then show ?thesis using True f s by (simp add: handle_customer_message_def)
    next
      assume "\<exists>kv. a = JObj kv"
      then obtain kv where "a = JObj kv" by blast
      then show ?thesis
        using True f s by (simp add: handle_customer_message_def) (simp add: read_error_def)
    qed
  qed
  have c: "\<not> read_error (fst (cancel_for_chat lib ext payload w))"
    using r(3) cancel_result [of lib ext cid w]
    by (auto simp: cancel_for_chat_def read_error_def fst_relabel)
  have h': "\<not> read_error (fst (case handle_customer_message cfg lib ext payload w of
        (Inl e, w') \<Rightarrow> (Inl e, w') | (Inr u, w') \<Rightarrow> (Inr ok_response, w')))"
    using h by (auto simp: fst_relabel read_error_def split: sum.splits)
  show ?thesis
    using assms(1) r h' c by (simp add: channel_webhook_def) (simp add: read_error_def)
qed

section \<open>The fire callback endpoint\<close>

text \<open>
  What lines 126 to 152 do with a body that parses to an object: nothing for a kind that has
  no message, one post otherwise, and the acknowledgment only when the post returns.
\<close>

lemma alert_fields_dict:
  assumes "dict_get data (str ''type'') JNull = Inr kind"
  shows "\<exists>t c p. alert_fields lib data = Inr (kind, t, c, p)"
  using assms by (cases data) (simp_all add: alert_fields_def bind_def)

lemma dispatch_alert_parsed:
  assumes "json_loads lib b = Some data" and "alert_fields lib data = Inr (kind, t, c, p)"
  shows "dispatch_alert cfg lib ext b w =
          (case render_alert kind t c p of
             None \<Rightarrow> (Inr ok_response, w)
           | Some msg \<Rightarrow>
               (case sink_post ext (SLACK_WEBHOOK_URL cfg) msg of
                  None \<Rightarrow> Inl SinkError | Some status \<Rightarrow> Inr ok_response,
                record_call (SlackPost (SLACK_WEBHOOK_URL cfg) msg) w))"
  using assms by (simp add: dispatch_alert_def send_slack_def split: option.splits)

lemma dispatch_alert_unassigned:
  assumes "json_loads lib b = Some data"
    and "dict_get data (str ''type'') JNull = Inr (JStr (str ''unassigned''))"
    and "dict_get data (str ''chat_title'') (JStr unknown_title) = Inr chat_title"
    and "dict_get data (str ''customer_name'') (JStr default_customer) = Inr customer_name"
    and "dict_get data (str ''msg_preview'') (JStr []) = Inr msg_preview"
    and "text = alert_text head_unassigned (str ''5'') (py_format lib chat_title)
                  (py_format lib customer_name) (py_format lib msg_preview)"
  shows "snd (dispatch_alert cfg lib ext b w) = record_call (SlackPost (SLACK_WEBHOOK_URL cfg) text) w
       \<and> sublist (py_format lib chat_title) text
       \<and> sublist (py_format lib customer_name) text
       \<and> sublist (py_format lib msg_preview) text
       \<and> sublist (str ''5'') text"
proof -
  have f: "alert_fields lib data = Inr (JStr (str ''unassigned''), py_format lib chat_title,
             py_format lib customer_name, py_format lib msg_preview)"
    using assms(2-5) by (simp add: alert_fields_def bind_def)
  have r: "render_alert (JStr (str ''unassigned'')) (py_format lib chat_title)
             (py_format lib customer_name) (py_format lib msg_preview) = Some text"
    using assms(6) by (simp add: render_alert_def)
  have "snd (dispatch_alert cfg lib ext b w) = record_call (SlackPost (SLACK_WEBHOOK_URL cfg) text) w"
    by (simp add: dispatch_alert_parsed [OF assms(1) f] r)
  then show ?thesis
    unfolding assms(6) by (simp add: sublist_alert_text)
qed

text \<open>The signature check of the program never passes: every fire callback is answered 401.\<close>

lemma verify_request_raises: "verify_request cfg lib ext req = Inl AttributeError"
  by (simp add: verify_request_def qstash_receiver_def)

lemma receive_alert_unauthorized:
  "receive_alert cfg lib ext req w = (Inl (HTTPException 401 (str ''Invalid signature'')), w)"
  by (simp add: receive_alert_def verify_request_raises)

section \<open>The example values, evaluated\<close>

lemma example_key: "timer_key (example_lib t) (JStr (str ''c1'')) = str ''timer:c1''"
  by (simp add: timer_key_def py_format_def str_def)



lemma example_fields:
  "message_fields (example_customer_message a) =
     Inr (JStr (str ''c1''), JStr (str ''Billing''), JStr (str ''Kim''), JStr (str ''hello''), a)"
  by (simp add: message_fields_def example_customer_message_def bind_def py_or_def str_def)


lemma example_hours:
  "is_operation_hours example_config (example_extern (10, 0, 0, 0) r m s)"
  "\<not> is_operation_hours example_config (example_extern (22, 30, 0, 0) r m s)"
  "is_operation_hours example_config (example_extern_down (10, 0, 0, 0))"
  by (simp_all add: is_operation_hours_def example_config_def example_extern_def
      example_extern_down_def)

lemma example_loads:
  "json_loads (example_lib example_table) ''customer'' = Some (example_customer_message JNull)"
  "json_loads (example_lib example_table) ''member'' = Some example_member_message"
  "json_loads (example_lib example_table) ''alert'' = Some (example_alert (str ''unassigned''))"
  "json_loads (example_lib example_table) ''later'' = Some (example_alert (str ''resolved''))"
  "json_loads (example_lib example_table) ''customer_without_id'' = Some example_customer_without_id"
  "json_loads (example_lib example_table) ''member_without_id'' = Some example_member_without_id"
  "json_loads (example_lib example_table) ''[]'' = Some (JArr [])"
  by (simp_all add: example_lib_def example_table_def)

lemma example_member_reads:
  "event_type example_member_message = Inr (JStr (str ''chat_message_created''))"
  "sender_type example_member_message = Inr (JStr (str ''member''))"
  "event_chat_id example_member_message = Inr (JStr (str ''c1''))"
  by (simp_all add: event_type_def sender_type_def event_chat_id_def example_member_message_def
      bind_def str_def)


lemma example_customer_reads:
  "event_type (example_customer_message a) = Inr (JStr (str ''chat_message_created''))"
  "sender_type (example_customer_message a) = Inr (JStr (str ''user''))"
  "event_type example_customer_without_id = Inr (JStr (str ''chat_message_created''))"
  "sender_type example_customer_without_id = Inr (JStr (str ''user''))"
  by (simp_all add: event_type_def sender_type_def example_customer_message_def
      example_customer_without_id_def bind_def str_def)

lemma example_world_registry:
  "registry example_world (str ''timer:c1'') = Some (str ''msg_1'', 360)"
  by (simp add: example_world_def)

lemma example_alert_reads:
  "dict_get (example_alert kind) (str ''type'') JNull = Inr (JStr kind)"
  "dict_get (example_alert kind) (str ''chat_title'') d1 = Inr (JStr (str ''Billing''))"
  "dict_get (example_alert kind) (str ''customer_name'') d2 = Inr (JStr (str ''Kim''))"
  "dict_get (example_alert kind) (str ''msg_preview'') d3 = Inr (JStr (str ''hello''))"
  by (simp_all add: example_alert_def str_def)

lemma example_handles_nonempty: "handles_nonempty example_world"
  by (simp add: handles_nonempty_def example_world_def str_def)

lemma example_ids_nonempty: "run_ids_nonempty example_run"
  by (simp add: run_ids_nonempty_def example_run_def ids_nonempty_def example_extern_def str_def)

lemma example_body: "body (example_request b) = b"
  by (simp add: example_request_def)

lemma example_urls:
  "BASE_URL example_config @ str ''/alert'' = str ''https://app.example/alert''"
  "SLACK_WEBHOOK_URL example_config = str ''https://hooks.example/T''"
  by (simp_all add: example_config_def str_def)

lemma example_answers:
  "publish_json (example_extern now r m s) u p d = m"
  "sink_post (example_extern now r m s) u t = s"
  "cancel_raises (example_extern now r m s) i = r"
  "registry_raises (example_extern now r m s) c = False"
  "registry_raises (example_extern_down now) c = True"
  by (simp_all add: example_extern_def example_extern_down_def)

lemma example_registry_returns: "registry_returns (example_extern now r m s)"
  by (simp add: registry_returns_def example_answers)

lemma example_ids: "str ''msg_1'' \<noteq> []" "str ''msg_2'' \<noteq> []" "str ''msg_3'' \<noteq> []"
  by (simp_all add: str_def)

lemma example_step_customer:
  assumes "registry w (str ''timer:c1'') = Some (old, ex)" and "old \<noteq> []"
    and "is_operation_hours example_config (example_extern now r (Some new) s)"
  shows "serve example_config (example_lib example_table) (example_extern now r (Some new) s)
               (WebhookChannel ''customer'') w =
         (Inr ok_response,
          w\<lparr>registry := (registry w)(str ''timer:c1'' \<mapsto> (new, 360)),
           calls := calls w @ [RedisGet (str ''timer:c1''), QCancel old, RedisDelete (str ''timer:c1''),
             QPublish (str ''https://app.example/alert'')
               (JObj [(str ''type'', JStr (str ''unassigned'')), (str ''chat_id'', JStr (str ''c1'')),
                      (str ''chat_title'', JStr (str ''Billing'')),
                      (str ''customer_name'', JStr (str ''Kim'')),
                      (str ''msg_preview'', JStr (str ''hello''))]) 300,
             RedisSet (str ''timer:c1'') new 360]\<rparr>)"
proof -
  have k: "registry w (timer_key (example_lib example_table) (JStr (str ''c1''))) = Some (old, ex)"
    using assms(1) by (simp add: example_key)
  show ?thesis
    using assms(3)
    by (simp add: serve_def channel_webhook_def example_loads example_customer_reads
          handle_customer_message_def example_fields schedule_timer_unfold
          cancel_present [OF k assms(2)] example_answers example_urls example_key)
qed

lemma example_handle_unassigned:
  "handle_customer_message example_config (example_lib example_table)
     (example_extern (10, 0, 0, 0) False (Some (str ''msg_2'')) None)
     (example_customer_message JNull) example_world =
   (Inr (),
    \<lparr>registry = [str ''timer:c1'' \<mapsto> (str ''msg_2'', 360)],
     calls = [RedisGet (str ''timer:c1''), QCancel (str ''msg_1''), RedisDelete (str ''timer:c1''),
       QPublish (str ''https://app.example/alert'')
         (JObj [(str ''type'', JStr (str ''unassigned'')), (str ''chat_id'', JStr (str ''c1'')),
                (str ''chat_title'', JStr (str ''Billing'')),
                (str ''customer_name'', JStr (str ''Kim'')),
                (str ''msg_preview'', JStr (str ''hello''))]) 300,
       RedisSet (str ''timer:c1'') (str ''msg_2'') 360]\<rparr>)"
proof -
  have k: "registry example_world (timer_key (example_lib example_table) (JStr (str ''c1'')))
     = Some (str ''msg_1'', 360)"
    by (simp add: example_key example_world_registry)
  show ?thesis
    by (simp add: handle_customer_message_def example_hours example_fields schedule_timer_unfold
          cancel_present [OF k example_ids(1)] example_answers example_urls example_key)
       (simp add: example_world_def)
qed

lemma example_handle_mine:
  "handle_customer_message example_config (example_lib example_table)
     (example_extern (10, 0, 0, 0) False (Some (str ''msg_2'')) None)
     (example_customer_message (JObj [(str ''id'', JStr (str ''m1''))])) example_world =
   (Inr (),
    \<lparr>registry = [str ''timer:c1'' \<mapsto> (str ''msg_2'', 240)],
     calls = [RedisGet (str ''timer:c1''), QCancel (str ''msg_1''), RedisDelete (str ''timer:c1''),
       QPublish (str ''https://app.example/alert'')
         (JObj [(str ''type'', JStr (str ''my_chat'')), (str ''chat_id'', JStr (str ''c1'')),
                (str ''chat_title'', JStr (str ''Billing'')),
                (str ''customer_name'', JStr (str ''Kim'')),
                (str ''msg_preview'', JStr (str ''hello''))]) 180,
       RedisSet (str ''timer:c1'') (str ''msg_2'') 240]\<rparr>)"
proof -
  have k: "registry example_world (timer_key (example_lib example_table) (JStr (str ''c1'')))
     = Some (str ''msg_1'', 360)"
    by (simp add: example_key example_world_registry)
  have i: "MY_MEMBER_ID example_config = str ''m1''" by (simp add: example_config_def)
  show ?thesis
    by (simp add: handle_customer_message_def example_hours example_fields schedule_timer_unfold
          cancel_present [OF k example_ids(1)] example_answers example_urls example_key i)
       (simp add: example_world_def)
qed

lemma example_step_member:
  assumes "registry w (str ''timer:c1'') = Some (old, ex)" and "old \<noteq> []"
  shows "serve example_config (example_lib example_table) (example_extern now r m s)
           (WebhookChannel ''member'') w =
         (Inr ok_response,
          w\<lparr>registry := (registry w)(str ''timer:c1'' := None),
           calls := calls w @ [RedisGet (str ''timer:c1''), QCancel old, RedisDelete (str ''timer:c1'')]\<rparr>)"
proof -
  have k: "registry w (timer_key (example_lib example_table) (JStr (str ''c1''))) = Some (old, ex)"
    using assms(1) by (simp add: example_key)
  have t: "truthy (JStr (str ''c1''))" by (simp add: str_def)
  show ?thesis
    using str_event_types str_sender_types t
    by (simp add: serve_def channel_webhook_def example_loads example_member_reads
          cancel_for_chat_def cancel_present [OF k assms(2)] example_key example_answers)
qed

lemma example_run_calls:
  "run_requests example_config (example_lib example_table) example_run example_world =
     \<lparr>registry = Map.empty,
      calls = [RedisGet (str ''timer:c1''), QCancel (str ''msg_1''), RedisDelete (str ''timer:c1''),
      QPublish (str ''https://app.example/alert'') (example_alert (str ''unassigned'')) 300,
      RedisSet (str ''timer:c1'') (str ''msg_2'') 360,
      RedisGet (str ''timer:c1''), QCancel (str ''msg_2''), RedisDelete (str ''timer:c1''),
      QPublish (str ''https://app.example/alert'') (example_alert (str ''unassigned'')) 300,
      RedisSet (str ''timer:c1'') (str ''msg_3'') 360,
      RedisGet (str ''timer:c1''), QCancel (str ''msg_3''), RedisDelete (str ''timer:c1'')]\<rparr>"
proof -
  have h: "is_operation_hours example_config (example_extern (10, 0, 0, 0) r m s)"
    "is_operation_hours example_config (example_extern (10, 5, 0, 0) r m s)" for r m s
    by (simp_all add: is_operation_hours_def example_config_def example_extern_def)
  let ?w1 = "snd (serve example_config (example_lib example_table)
      (example_extern (10, 0, 0, 0) False (Some (str ''msg_2'')) None)
      (WebhookChannel ''customer'') example_world)"
  have w1: "?w1 = \<lparr>registry = [str ''timer:c1'' \<mapsto> (str ''msg_2'', 360)],
      calls = [RedisGet (str ''timer:c1''), QCancel (str ''msg_1''), RedisDelete (str ''timer:c1''),
        QPublish (str ''https://app.example/alert'') (example_alert (str ''unassigned'')) 300,
        RedisSet (str ''timer:c1'') (str ''msg_2'') 360]\<rparr>"
    by (simp add: example_step_customer [OF example_world_registry example_ids(1) h(1)])
       (simp add: example_world_def example_alert_def)
  let ?w2 = "snd (serve example_config (example_lib example_table)
      (example_extern (10, 5, 0, 0) True (Some (str ''msg_3'')) None)
      (WebhookChannel ''customer'') ?w1)"
  have r1: "registry ?w1 (str ''timer:c1'') = Some (str ''msg_2'', 360)"
    by (simp add: w1)
  have w2: "?w2 = \<lparr>registry = [str ''timer:c1'' \<mapsto> (str ''msg_3'', 360)],
      calls = [RedisGet (str ''timer:c1''), QCancel (str ''msg_1''), RedisDelete (str ''timer:c1''),
        QPublish (str ''https://app.example/alert'') (example_alert (str ''unassigned'')) 300,
        RedisSet (str ''timer:c1'') (str ''msg_2'') 360,
        RedisGet (str ''timer:c1''), QCancel (str ''msg_2''), RedisDelete (str ''timer:c1''),
        QPublish (str ''https://app.example/alert'') (example_alert (str ''unassigned'')) 300,
        RedisSet (str ''timer:c1'') (str ''msg_3'') 360]\<rparr>"
    by (simp only: example_step_customer [OF r1 example_ids(2) h(2)] snd_conv)
       (simp add: w1 example_alert_def)
  let ?w3 = "snd (serve example_config (example_lib example_table)
      (example_extern (10, 6, 0, 0) False None None) (WebhookChannel ''member'') ?w2)"
  have r2: "registry ?w2 (str ''timer:c1'') = Some (str ''msg_3'', 360)"
    by (simp add: w2)
  have w3: "?w3 = \<lparr>registry = Map.empty,
      calls = [RedisGet (str ''timer:c1''), QCancel (str ''msg_1''), RedisDelete (str ''timer:c1''),
        QPublish (str ''https://app.example/alert'') (example_alert (str ''unassigned'')) 300,
        RedisSet (str ''timer:c1'') (str ''msg_2'') 360,
        RedisGet (str ''timer:c1''), QCancel (str ''msg_2''), RedisDelete (str ''timer:c1''),
        QPublish (str ''https://app.example/alert'') (example_alert (str ''unassigned'')) 300,
        RedisSet (str ''timer:c1'') (str ''msg_3'') 360,
        RedisGet (str ''timer:c1''), QCancel (str ''msg_3''), RedisDelete (str ''timer:c1'')]\<rparr>"
    by (simp only: example_step_member [OF r2 example_ids(3)] snd_conv) (simp add: w2)
  have "run_requests example_config (example_lib example_table) example_run example_world =
        snd (serve example_config (example_lib example_table)
          (example_extern (10, 9, 0, 0) False None (Some 200)) (Alert (example_request ''alert'')) ?w3)"
    by (simp add: example_run_def)
  also have "\<dots> = ?w3"
    by (simp add: serve_def receive_alert_unauthorized)
  finally show ?thesis by (simp add: w3)
qed

lemma example_customer_served:
  "channel_webhook example_config (example_lib example_table)
     (example_extern (10, 0, 0, 0) False (Some (str ''msg_2'')) None) ''customer'' example_world =
   (Inr ok_response,
    \<lparr>registry = [str ''timer:c1'' \<mapsto> (str ''msg_2'', 360)],
     calls = [RedisGet (str ''timer:c1''), QCancel (str ''msg_1''), RedisDelete (str ''timer:c1''),
       QPublish (str ''https://app.example/alert'')
         (JObj [(str ''type'', JStr (str ''unassigned'')), (str ''chat_id'', JStr (str ''c1'')),
                (str ''chat_title'', JStr (str ''Billing'')),
                (str ''customer_name'', JStr (str ''Kim'')),
                (str ''msg_preview'', JStr (str ''hello''))]) 300,
       RedisSet (str ''timer:c1'') (str ''msg_2'') 360]\<rparr>)"
  using example_step_customer [OF example_world_registry example_ids(1) example_hours(1),
      of False "str ''msg_2''" None]
  by (simp add: serve_def) (simp add: example_world_def)

lemma example_alert_fields:
  "alert_fields (example_lib example_table) (example_alert kind) =
      Inr (JStr kind, str ''Billing'', str ''Kim'', str ''hello'')"
  by (simp add: alert_fields_def example_alert_reads bind_def py_format_def)

section \<open>The claims\<close>

text \<open>
  Claim C1. Along every sequence of requests, served one after the other, at most one
  delayed-delivery handle is recorded in the Timer Registry for a conversation at any
  time: under every key, before and after each call made to the registry, the handles
  written and not removed since are at most one, because an arm deletes the entry that
  is there before it sets the new handle, and a cancel deletes the entry. The message
  ids of the delayed-delivery service are not empty.
\<close>

theorem registry_at_most_one_handle:
  assumes "handles_nonempty w" and "run_ids_nonempty rqs"
  shows "calls (run_requests cfg lib rqs w) = calls w @ new_calls w (run_requests cfg lib rqs w)
       \<and> at_most_one_recorded key (new_calls w (run_requests cfg lib rqs w)) (recorded_handles w key)
       \<and> fold (recorded_after key) (new_calls w (run_requests cfg lib rqs w)) (recorded_handles w key)
           = recorded_handles (run_requests cfg lib rqs w) key
       \<and> length (recorded_handles (run_requests cfg lib rqs w) key) \<le> 1"
  using run_requests_invariant [of w rqs key cfg lib] assms recorded_handles_length
  by (simp add: coherent_def run_ids_nonempty_def)

theorem registry_at_most_one_handle_witness:
  "handles_nonempty example_world
   \<and> run_ids_nonempty example_run
   \<and> at_most_one_recorded (str ''timer:c1'')
        (new_calls example_world
           (run_requests example_config (example_lib example_table) example_run example_world))
        (recorded_handles example_world (str ''timer:c1''))
   \<and> length (new_calls example_world
           (run_requests example_config (example_lib example_table) example_run example_world)) = 13
   \<and> recorded_handles (run_requests example_config (example_lib example_table) example_run example_world)
        (str ''timer:c1'') = []"
proof -
  have c: "length (new_calls example_world
           (run_requests example_config (example_lib example_table) example_run example_world)) = 13
   \<and> recorded_handles (run_requests example_config (example_lib example_table) example_run example_world)
        (str ''timer:c1'') = []"
    by (simp add: example_run_calls new_calls_def recorded_handles_def) (simp add: example_world_def)
  show ?thesis
    using registry_at_most_one_handle [OF example_handles_nonempty example_ids_nonempty,
        of example_config "example_lib example_table" "str ''timer:c1''"]
      example_handles_nonempty example_ids_nonempty c
    by blast
qed

text \<open>
  Claim C2. A customer message whose chat has no assignee, the registry answering: within
  operating hours the engine schedules, after 5 minutes, the delivery of the payload whose
  \<open>type\<close> is \<open>unassigned\<close> and that carries the chat id, the title, the name of the
  customer and the preview; the scheduling having returned a handle, it is set under the
  key of the conversation with an expiry of 360 seconds, these two calls following those
  of the cancelling. Outside operating hours nothing is called and the registry is as it
  was.
\<close>

theorem customer_message_unassigned:
  assumes "message_fields payload = Inr (chat_id, chat_title, customer_name, msg_preview, JNull)"
  shows "(is_operation_hours cfg ext \<and> registry_returns ext \<longrightarrow>
            QPublish (BASE_URL cfg @ str ''/alert'')
                (JObj [(str ''type'', JStr (str ''unassigned'')), (str ''chat_id'', chat_id),
                       (str ''chat_title'', chat_title), (str ''customer_name'', customer_name),
                       (str ''msg_preview'', msg_preview)]) (5 * 60)
              \<in> set (new_calls w (snd (handle_customer_message cfg lib ext payload w)))
          \<and> (\<forall>m. publish_json ext (BASE_URL cfg @ str ''/alert'')
                    (JObj [(str ''type'', JStr (str ''unassigned'')), (str ''chat_id'', chat_id),
                           (str ''chat_title'', chat_title), (str ''customer_name'', customer_name),
                           (str ''msg_preview'', msg_preview)]) (5 * 60) = Some m \<longrightarrow>
                 fst (handle_customer_message cfg lib ext payload w) = Inr ()
               \<and> registry (snd (handle_customer_message cfg lib ext payload w))
                   (str ''timer:'' @ py_format lib chat_id) = Some (m, 5 * 60 + 60)
               \<and> calls (snd (handle_customer_message cfg lib ext payload w)) =
                   calls (snd (cancel_existing_timer lib ext chat_id w)) @
                   [QPublish (BASE_URL cfg @ str ''/alert'')
                      (JObj [(str ''type'', JStr (str ''unassigned'')), (str ''chat_id'', chat_id),
                             (str ''chat_title'', chat_title), (str ''customer_name'', customer_name),
                             (str ''msg_preview'', msg_preview)]) (5 * 60),
                    RedisSet (str ''timer:'' @ py_format lib chat_id) m (5 * 60 + 60)]))
       \<and> (\<not> is_operation_hours cfg ext \<longrightarrow>
            handle_customer_message cfg lib ext payload w = (Inr (), w))
       \<and> py_format lib (JStr c) = c"
proof -
  let ?p = "JObj [(str ''type'', JStr (str ''unassigned'')), (str ''chat_id'', chat_id),
                  (str ''chat_title'', chat_title), (str ''customer_name'', customer_name),
                  (str ''msg_preview'', msg_preview)]"
  have h: "is_operation_hours cfg ext \<Longrightarrow>
        handle_customer_message cfg lib ext payload w =
          schedule_timer cfg lib ext chat_id (5 * 60) ?p w"
    using assms by (simp add: handle_customer_message_def)
  have n: "\<not> is_operation_hours cfg ext \<Longrightarrow>
        handle_customer_message cfg lib ext payload w = (Inr (), w)"
    by (simp add: handle_customer_message_def)
  have a: "is_operation_hours cfg ext \<Longrightarrow> registry_returns ext \<Longrightarrow>
        QPublish (BASE_URL cfg @ str ''/alert'') ?p (5 * 60)
          \<in> set (new_calls w (snd (handle_customer_message cfg lib ext payload w)))"
    using schedule_timer_armed [of ext cfg ?p "5 * 60" w lib chat_id] h by simp
  have s: "is_operation_hours cfg ext \<Longrightarrow> registry_returns ext \<Longrightarrow>
        publish_json ext (BASE_URL cfg @ str ''/alert'') ?p (5 * 60) = Some m \<Longrightarrow>
        fst (handle_customer_message cfg lib ext payload w) = Inr ()
      \<and> registry (snd (handle_customer_message cfg lib ext payload w))
           (str ''timer:'' @ py_format lib chat_id) = Some (m, 5 * 60 + 60)
      \<and> calls (snd (handle_customer_message cfg lib ext payload w)) =
           calls (snd (cancel_existing_timer lib ext chat_id w)) @
           [QPublish (BASE_URL cfg @ str ''/alert'') ?p (5 * 60),
            RedisSet (str ''timer:'' @ py_format lib chat_id) m (5 * 60 + 60)]" for m
    using schedule_timer_stored [of ext cfg ?p "5 * 60" m lib chat_id w] h
    by (simp add: timer_key_def)
  have y: "py_format lib (JStr c) = c" by (simp add: py_format_def)
  show ?thesis using a s n y by blast
qed

theorem customer_message_unassigned_witness:
  "message_fields (example_customer_message JNull) =
     Inr (JStr (str ''c1''), JStr (str ''Billing''), JStr (str ''Kim''), JStr (str ''hello''), JNull)
   \<and> is_operation_hours example_config (example_extern (10, 0, 0, 0) False (Some (str ''msg_2'')) None)
   \<and> registry_returns (example_extern (10, 0, 0, 0) False (Some (str ''msg_2'')) None)
   \<and> registry (snd (handle_customer_message example_config (example_lib example_table)
         (example_extern (10, 0, 0, 0) False (Some (str ''msg_2'')) None)
         (example_customer_message JNull) example_world)) (str ''timer:c1'') = Some (str ''msg_2'', 360)
   \<and> QPublish (str ''https://app.example/alert'')
        (JObj [(str ''type'', JStr (str ''unassigned'')), (str ''chat_id'', JStr (str ''c1'')),
               (str ''chat_title'', JStr (str ''Billing'')), (str ''customer_name'', JStr (str ''Kim'')),
               (str ''msg_preview'', JStr (str ''hello''))]) 300
       \<in> set (new_calls example_world (snd (handle_customer_message example_config
             (example_lib example_table) (example_extern (10, 0, 0, 0) False (Some (str ''msg_2'')) None)
             (example_customer_message JNull) example_world)))
   \<and> handle_customer_message example_config (example_lib example_table)
         (example_extern (10, 0, 0, 0) False (Some (str ''msg_2'')) None)
         (example_customer_message JNull) example_world =
       (Inr (),
        \<lparr>registry = [str ''timer:c1'' \<mapsto> (str ''msg_2'', 360)],
         calls = [RedisGet (str ''timer:c1''), QCancel (str ''msg_1''), RedisDelete (str ''timer:c1''),
           QPublish (str ''https://app.example/alert'')
             (JObj [(str ''type'', JStr (str ''unassigned'')), (str ''chat_id'', JStr (str ''c1'')),
                    (str ''chat_title'', JStr (str ''Billing'')),
                    (str ''customer_name'', JStr (str ''Kim'')),
                    (str ''msg_preview'', JStr (str ''hello''))]) 300,
           RedisSet (str ''timer:c1'') (str ''msg_2'') 360]\<rparr>)
   \<and> \<not> is_operation_hours example_config (example_extern (22, 30, 0, 0) False (Some (str ''msg_2'')) None)
   \<and> handle_customer_message example_config (example_lib example_table)
         (example_extern (22, 30, 0, 0) False (Some (str ''msg_2'')) None)
         (example_customer_message JNull) example_world = (Inr (), example_world)"
proof -
  note f = example_fields [of JNull]
  have q: "QPublish (str ''https://app.example/alert'')
        (JObj [(str ''type'', JStr (str ''unassigned'')), (str ''chat_id'', JStr (str ''c1'')),
               (str ''chat_title'', JStr (str ''Billing'')), (str ''customer_name'', JStr (str ''Kim'')),
               (str ''msg_preview'', JStr (str ''hello''))]) 300
       \<in> set (new_calls example_world (snd (handle_customer_message example_config
             (example_lib example_table) (example_extern (10, 0, 0, 0) False (Some (str ''msg_2'')) None)
             (example_customer_message JNull) example_world)))"
    using customer_message_unassigned [OF f, of example_config
        "example_extern (10, 0, 0, 0) False (Some (str ''msg_2'')) None" example_world
        "example_lib example_table", THEN conjunct1]
      example_hours(1) example_registry_returns
    by (simp add: example_urls)
  have n: "handle_customer_message example_config (example_lib example_table)
         (example_extern (22, 30, 0, 0) False (Some (str ''msg_2'')) None)
         (example_customer_message JNull) example_world = (Inr (), example_world)"
    using customer_message_unassigned [OF f, of example_config
        "example_extern (22, 30, 0, 0) False (Some (str ''msg_2'')) None" example_world
        "example_lib example_table", THEN conjunct2, THEN conjunct1]
      example_hours(2)
    by simp
  have r: "registry (snd (handle_customer_message example_config (example_lib example_table)
         (example_extern (10, 0, 0, 0) False (Some (str ''msg_2'')) None)
         (example_customer_message JNull) example_world)) (str ''timer:c1'') = Some (str ''msg_2'', 360)"
    by (simp add: example_handle_unassigned)
  show ?thesis
    using f example_hours(1,2) example_registry_returns q n r example_handle_unassigned by simp
qed

text \<open>
  Claim C3. A customer message within operating hours whose assignee has the member id
  of the operating identity, the registry answering: the engine schedules, after 3
  minutes, the delivery of the payload whose \<open>type\<close> is \<open>my_chat\<close> (the kind the spec
  calls my-conversation), and sets the handle returned under the key of the conversation
  with an expiry of 240 seconds. A customer message whose assignee is somebody else makes
  no call and leaves the registry as it was.
\<close>

theorem customer_message_assigned:
  assumes "message_fields payload = Inr (chat_id, chat_title, customer_name, msg_preview, assignee)"
    and "assignee \<noteq> JNull"
  shows "(is_operation_hours cfg ext \<and> registry_returns ext
          \<and> dict_get assignee (str ''id'') JNull = Inr (JStr (MY_MEMBER_ID cfg)) \<longrightarrow>
            QPublish (BASE_URL cfg @ str ''/alert'')
                (JObj [(str ''type'', JStr (str ''my_chat'')), (str ''chat_id'', chat_id),
                       (str ''chat_title'', chat_title), (str ''customer_name'', customer_name),
                       (str ''msg_preview'', msg_preview)]) (3 * 60)
              \<in> set (new_calls w (snd (handle_customer_message cfg lib ext payload w)))
          \<and> (\<forall>m. publish_json ext (BASE_URL cfg @ str ''/alert'')
                    (JObj [(str ''type'', JStr (str ''my_chat'')), (str ''chat_id'', chat_id),
                           (str ''chat_title'', chat_title), (str ''customer_name'', customer_name),
                           (str ''msg_preview'', msg_preview)]) (3 * 60) = Some m \<longrightarrow>
                 fst (handle_customer_message cfg lib ext payload w) = Inr ()
               \<and> registry (snd (handle_customer_message cfg lib ext payload w))
                   (str ''timer:'' @ py_format lib chat_id) = Some (m, 3 * 60 + 60)
               \<and> calls (snd (handle_customer_message cfg lib ext payload w)) =
                   calls (snd (cancel_existing_timer lib ext chat_id w)) @
                   [QPublish (BASE_URL cfg @ str ''/alert'')
                      (JObj [(str ''type'', JStr (str ''my_chat'')), (str ''chat_id'', chat_id),
                             (str ''chat_title'', chat_title), (str ''customer_name'', customer_name),
                             (str ''msg_preview'', msg_preview)]) (3 * 60),
                    RedisSet (str ''timer:'' @ py_format lib chat_id) m (3 * 60 + 60)]))
       \<and> (dict_get assignee (str ''id'') JNull \<noteq> Inr (JStr (MY_MEMBER_ID cfg)) \<longrightarrow>
            snd (handle_customer_message cfg lib ext payload w) = w)
       \<and> py_format lib (JStr c) = c"
proof -
  let ?p = "JObj [(str ''type'', JStr (str ''my_chat'')), (str ''chat_id'', chat_id),
                  (str ''chat_title'', chat_title), (str ''customer_name'', customer_name),
                  (str ''msg_preview'', msg_preview)]"
  let ?mine = "dict_get assignee (str ''id'') JNull = Inr (JStr (MY_MEMBER_ID cfg))"
  have h: "is_operation_hours cfg ext \<Longrightarrow> ?mine \<Longrightarrow>
        handle_customer_message cfg lib ext payload w =
          schedule_timer cfg lib ext chat_id (3 * 60) ?p w"
    using assms by (simp add: handle_customer_message_def)
  have n: "\<not> ?mine \<Longrightarrow> snd (handle_customer_message cfg lib ext payload w) = w"
    using assms by (simp add: handle_customer_message_def split: sum.splits)
  have a: "is_operation_hours cfg ext \<Longrightarrow> registry_returns ext \<Longrightarrow> ?mine \<Longrightarrow>
        QPublish (BASE_URL cfg @ str ''/alert'') ?p (3 * 60)
          \<in> set (new_calls w (snd (handle_customer_message cfg lib ext payload w)))"
    using schedule_timer_armed [of ext cfg ?p "3 * 60" w lib chat_id] h by simp
  have s: "is_operation_hours cfg ext \<Longrightarrow> registry_returns ext \<Longrightarrow> ?mine \<Longrightarrow>
        publish_json ext (BASE_URL cfg @ str ''/alert'') ?p (3 * 60) = Some m \<Longrightarrow>
        fst (handle_customer_message cfg lib ext payload w) = Inr ()
      \<and> registry (snd (handle_customer_message cfg lib ext payload w))
           (str ''timer:'' @ py_format lib chat_id) = Some (m, 3 * 60 + 60)
      \<and> calls (snd (handle_customer_message cfg lib ext payload w)) =
           calls (snd (cancel_existing_timer lib ext chat_id w)) @
           [QPublish (BASE_URL cfg @ str ''/alert'') ?p (3 * 60),
            RedisSet (str ''timer:'' @ py_format lib chat_id) m (3 * 60 + 60)]" for m
    using schedule_timer_stored [of ext cfg ?p "3 * 60" m lib chat_id w] h
    by (simp add: timer_key_def)
  have y: "py_format lib (JStr c) = c" by (simp add: py_format_def)
  show ?thesis using a s n y by blast
qed

theorem customer_message_assigned_witness:
  "message_fields (example_customer_message (JObj [(str ''id'', JStr (str ''m1''))])) =
     Inr (JStr (str ''c1''), JStr (str ''Billing''), JStr (str ''Kim''), JStr (str ''hello''),
          JObj [(str ''id'', JStr (str ''m1''))])
   \<and> dict_get (JObj [(str ''id'', JStr (str ''m1''))]) (str ''id'') JNull
       = Inr (JStr (MY_MEMBER_ID example_config))
   \<and> is_operation_hours example_config (example_extern (10, 0, 0, 0) False (Some (str ''msg_2'')) None)
   \<and> registry_returns (example_extern (10, 0, 0, 0) False (Some (str ''msg_2'')) None)
   \<and> registry (snd (handle_customer_message example_config (example_lib example_table)
         (example_extern (10, 0, 0, 0) False (Some (str ''msg_2'')) None)
         (example_customer_message (JObj [(str ''id'', JStr (str ''m1''))])) example_world))
         (str ''timer:c1'') = Some (str ''msg_2'', 240)
   \<and> QPublish (str ''https://app.example/alert'')
        (JObj [(str ''type'', JStr (str ''my_chat'')), (str ''chat_id'', JStr (str ''c1'')),
               (str ''chat_title'', JStr (str ''Billing'')), (str ''customer_name'', JStr (str ''Kim'')),
               (str ''msg_preview'', JStr (str ''hello''))]) 180
       \<in> set (new_calls example_world (snd (handle_customer_message example_config
             (example_lib example_table) (example_extern (10, 0, 0, 0) False (Some (str ''msg_2'')) None)
             (example_customer_message (JObj [(str ''id'', JStr (str ''m1''))])) example_world)))
   \<and> handle_customer_message example_config (example_lib example_table)
         (example_extern (10, 0, 0, 0) False (Some (str ''msg_2'')) None)
         (example_customer_message (JObj [(str ''id'', JStr (str ''m1''))])) example_world =
       (Inr (),
        \<lparr>registry = [str ''timer:c1'' \<mapsto> (str ''msg_2'', 240)],
         calls = [RedisGet (str ''timer:c1''), QCancel (str ''msg_1''), RedisDelete (str ''timer:c1''),
           QPublish (str ''https://app.example/alert'')
             (JObj [(str ''type'', JStr (str ''my_chat'')), (str ''chat_id'', JStr (str ''c1'')),
                    (str ''chat_title'', JStr (str ''Billing'')),
                    (str ''customer_name'', JStr (str ''Kim'')),
                    (str ''msg_preview'', JStr (str ''hello''))]) 180,
           RedisSet (str ''timer:c1'') (str ''msg_2'') 240]\<rparr>)
   \<and> dict_get (JObj [(str ''id'', JStr (str ''m2''))]) (str ''id'') JNull
       \<noteq> Inr (JStr (MY_MEMBER_ID example_config))
   \<and> snd (handle_customer_message example_config (example_lib example_table)
         (example_extern (10, 0, 0, 0) False (Some (str ''msg_2'')) None)
         (example_customer_message (JObj [(str ''id'', JStr (str ''m2''))])) example_world)
       = example_world"
proof -
  note f1 = example_fields [of "JObj [(str ''id'', JStr (str ''m1''))]"]
  note f2 = example_fields [of "JObj [(str ''id'', JStr (str ''m2''))]"]
  have i1: "dict_get (JObj [(str ''id'', JStr (str ''m1''))]) (str ''id'') JNull
       = Inr (JStr (MY_MEMBER_ID example_config))"
    by (simp add: example_config_def)
  have i2: "dict_get (JObj [(str ''id'', JStr (str ''m2''))]) (str ''id'') JNull
       \<noteq> Inr (JStr (MY_MEMBER_ID example_config))"
    by (simp add: example_config_def str_def)
  have q: "QPublish (str ''https://app.example/alert'')
        (JObj [(str ''type'', JStr (str ''my_chat'')), (str ''chat_id'', JStr (str ''c1'')),
               (str ''chat_title'', JStr (str ''Billing'')), (str ''customer_name'', JStr (str ''Kim'')),
               (str ''msg_preview'', JStr (str ''hello''))]) 180
       \<in> set (new_calls example_world (snd (handle_customer_message example_config
             (example_lib example_table) (example_extern (10, 0, 0, 0) False (Some (str ''msg_2'')) None)
             (example_customer_message (JObj [(str ''id'', JStr (str ''m1''))])) example_world)))"
    using customer_message_assigned [OF f1, of example_config
        "example_extern (10, 0, 0, 0) False (Some (str ''msg_2'')) None" example_world
        "example_lib example_table", THEN conjunct1]
      example_hours(1) example_registry_returns i1
    by (simp add: example_urls)
  have n: "snd (handle_customer_message example_config (example_lib example_table)
         (example_extern (10, 0, 0, 0) False (Some (str ''msg_2'')) None)
         (example_customer_message (JObj [(str ''id'', JStr (str ''m2''))])) example_world)
       = example_world"
    using customer_message_assigned [OF f2, of example_config
        "example_extern (10, 0, 0, 0) False (Some (str ''msg_2'')) None" example_world
        "example_lib example_table", THEN conjunct2, THEN conjunct1]
      i2
    by simp
  have r: "registry (snd (handle_customer_message example_config (example_lib example_table)
         (example_extern (10, 0, 0, 0) False (Some (str ''msg_2'')) None)
         (example_customer_message (JObj [(str ''id'', JStr (str ''m1''))])) example_world))
         (str ''timer:c1'') = Some (str ''msg_2'', 240)"
    by (simp add: example_handle_mine)
  show ?thesis
    using f1 i1 i2 example_hours(1) example_registry_returns q n r example_handle_mine by simp
qed




text \<open>
  Claim C5. Arming a timer for a conversation that has one recorded, the registry
  answering and the scheduling returning: the upstream cancel is called with the recorded
  handle before the new delivery is scheduled, and the new handle is then set under the
  key of the conversation with an expiry of the delay plus 60 seconds, which is more than
  the delay. The key is \<open>timer:\<close> followed by the conversation id, so two conversations
  have two keys, and the entries of the other conversations stay as they were.
\<close>

theorem schedule_timer_rearm:
  assumes "registry w (timer_key lib chat_id) = Some (old_id, old_ex)" and "old_id \<noteq> []"
    and "publish_json ext (BASE_URL cfg @ str ''/alert'') p d = Some new_id"
    and "registry_returns ext"
  shows "schedule_timer cfg lib ext chat_id d p w =
          (Inr (), w\<lparr>registry := (registry w)(timer_key lib chat_id \<mapsto> (new_id, d + 60)),
                     calls := calls w @ [RedisGet (timer_key lib chat_id), QCancel old_id,
                                RedisDelete (timer_key lib chat_id),
                                QPublish (BASE_URL cfg @ str ''/alert'') p d,
                                RedisSet (timer_key lib chat_id) new_id (d + 60)]\<rparr>)
       \<and> d < d + 60
       \<and> timer_key lib chat_id = str ''timer:'' @ py_format lib chat_id
       \<and> py_format lib (JStr c) = c
       \<and> (timer_key lib (JStr c) = timer_key lib (JStr c') \<longleftrightarrow> c = c')"
  using assms(3,4)
  by (simp add: schedule_timer_unfold cancel_present [OF assms(1,2)] registry_returns_def
        timer_key_string)
     (simp add: timer_key_def py_format_def)

theorem schedule_timer_rearm_witness:
  "registry example_world_two (timer_key (example_lib example_table) (JStr (str ''c1'')))
     = Some (str ''msg_1'', 360)
   \<and> str ''msg_1'' \<noteq> []
   \<and> publish_json (example_extern (10, 0, 0, 0) False (Some (str ''msg_2'')) None)
        (BASE_URL example_config @ str ''/alert'') (example_alert (str ''unassigned'')) 300
       = Some (str ''msg_2'')
   \<and> registry_returns (example_extern (10, 0, 0, 0) False (Some (str ''msg_2'')) None)
   \<and> schedule_timer example_config (example_lib example_table)
         (example_extern (10, 0, 0, 0) False (Some (str ''msg_2'')) None) (JStr (str ''c1'')) 300
         (example_alert (str ''unassigned'')) example_world_two =
       (Inr (),
        \<lparr>registry = [str ''timer:c1'' \<mapsto> (str ''msg_2'', 360), str ''timer:c2'' \<mapsto> (str ''msg_7'', 240)],
         calls = [RedisGet (str ''timer:c1''), QCancel (str ''msg_1''), RedisDelete (str ''timer:c1''),
                  QPublish (str ''https://app.example/alert'') (example_alert (str ''unassigned'')) 300,
                  RedisSet (str ''timer:c1'') (str ''msg_2'') 360]\<rparr>)
   \<and> timer_key (example_lib example_table) (JStr (str ''c1'')) = str ''timer:c1''
   \<and> timer_key (example_lib example_table) (JStr (str ''c2'')) = str ''timer:c2''
   \<and> timer_key (example_lib example_table) (JStr (str ''c1''))
       \<noteq> timer_key (example_lib example_table) (JStr (str ''c2''))"
proof -
  have h1: "registry example_world_two (timer_key (example_lib example_table) (JStr (str ''c1'')))
     = Some (str ''msg_1'', 360)"
    by (simp add: example_key) (simp add: example_world_two_def str_def)
  have h3: "publish_json (example_extern (10, 0, 0, 0) False (Some (str ''msg_2'')) None)
        (BASE_URL example_config @ str ''/alert'') (example_alert (str ''unassigned'')) 300
       = Some (str ''msg_2'')"
    by (simp add: example_answers)
  have c: "str ''c1'' \<noteq> str ''c2''" by (simp add: str_def)
  have m: "[str ''timer:c1'' \<mapsto> (str ''msg_1'', 360), str ''timer:c2'' \<mapsto> (str ''msg_7'', 240)]
             (str ''timer:c1'' \<mapsto> (str ''msg_2'', 360)) =
           [str ''timer:c1'' \<mapsto> (str ''msg_2'', 360), str ''timer:c2'' \<mapsto> (str ''msg_7'', 240)]"
    by (rule ext) (simp add: str_def)
  have k2: "timer_key (example_lib example_table) (JStr (str ''c2'')) = str ''timer:c2''"
    by (simp add: timer_key_def py_format_def str_def)
  have d: "str ''timer:c1'' \<noteq> str ''timer:c2''" by (simp add: str_def)
  note t = schedule_timer_rearm [OF h1 example_ids(1) h3 example_registry_returns,
        of "str ''c1''" "str ''c2''", THEN conjunct1, unfolded example_key example_urls]
  have "schedule_timer example_config (example_lib example_table)
         (example_extern (10, 0, 0, 0) False (Some (str ''msg_2'')) None) (JStr (str ''c1'')) 300
         (example_alert (str ''unassigned'')) example_world_two =
       (Inr (),
        \<lparr>registry = [str ''timer:c1'' \<mapsto> (str ''msg_2'', 360), str ''timer:c2'' \<mapsto> (str ''msg_7'', 240)],
         calls = [RedisGet (str ''timer:c1''), QCancel (str ''msg_1''), RedisDelete (str ''timer:c1''),
                  QPublish (str ''https://app.example/alert'') (example_alert (str ''unassigned'')) 300,
                  RedisSet (str ''timer:c1'') (str ''msg_2'') 360]\<rparr>)"
    using t by (simp add: example_world_two_def m)
  then show ?thesis
    using h1 h3 example_ids(1) example_registry_returns d by (simp add: example_key k2)
qed

text \<open>
  Claim C6. A fire callback whose signature check fails is answered with the status 401
  and nothing else happens: no call is made, to the notification sink or elsewhere.
\<close>

theorem receive_alert_rejects_bad_signature:
  assumes "verify_request cfg lib ext req \<noteq> Inr ()"
  shows "receive_alert cfg lib ext req w = (Inl (HTTPException 401 (str ''Invalid signature'')), w)"
  using assms by (cases "verify_request cfg lib ext req") (simp_all add: receive_alert_def)

theorem receive_alert_rejects_bad_signature_witness:
  "verify_request example_config (example_lib example_table)
      (example_extern (10, 0, 0, 0) False None (Some 200)) (example_request ''alert'') \<noteq> Inr ()
   \<and> receive_alert example_config (example_lib example_table)
        (example_extern (10, 0, 0, 0) False None (Some 200)) (example_request ''alert'') example_world
       = (Inl (HTTPException 401 (str ''Invalid signature'')), example_world)"
proof -
  have h: "verify_request example_config (example_lib example_table)
      (example_extern (10, 0, 0, 0) False None (Some 200)) (example_request ''alert'') \<noteq> Inr ()"
    by (simp add: verify_request_raises)
  show ?thesis using receive_alert_rejects_bad_signature [OF h] h by simp
qed

text \<open>
  Claim C7. A fire callback of the kind \<open>unassigned\<close> should make one call to the
  notification sink. The program answers it with the status 401 and makes no call,
  although lines 126 to 152, given the same body, post the message once and acknowledge:
  the signature check of line 118 raises for every request.
\<close>

theorem receive_alert_unassigned_answers_401:
  "json_loads (example_lib example_table) (body (example_request ''alert''))
     = Some (JObj [(str ''type'', JStr (str ''unassigned'')), (str ''chat_id'', JStr (str ''c1'')),
                   (str ''chat_title'', JStr (str ''Billing'')),
                   (str ''customer_name'', JStr (str ''Kim'')),
                   (str ''msg_preview'', JStr (str ''hello''))])
   \<and> receive_alert example_config (example_lib example_table)
        (example_extern (10, 0, 0, 0) False None (Some 200)) (example_request ''alert'') example_world
       = (Inl (HTTPException 401 (str ''Invalid signature'')), example_world)
   \<and> new_calls example_world (snd (receive_alert example_config (example_lib example_table)
        (example_extern (10, 0, 0, 0) False None (Some 200)) (example_request ''alert'') example_world))
       = []
   \<and> dispatch_alert example_config (example_lib example_table)
        (example_extern (10, 0, 0, 0) False None (Some 200)) ''alert'' example_world
       = (Inr ok_response,
          record_call (SlackPost (str ''https://hooks.example/T'')
            (alert_text head_unassigned (str ''5'') (str ''Billing'') (str ''Kim'') (str ''hello'')))
            example_world)"
  by (simp add: receive_alert_unauthorized new_calls_def example_body example_loads
        dispatch_alert_parsed [OF example_loads(3) example_alert_fields] render_alert_def
        example_answers example_urls)
     (simp add: example_alert_def)

text \<open>
  Claim C8. A fire callback whose signature is valid and whose body parses should be
  acknowledged. The program answers it with the status 401, for the reason of claim C7,
  although lines 126 to 152 acknowledge the same body at once when its kind is unknown.
  Given a body of a known kind, these lines acknowledge whatever status the sink answers,
  and fail when the post raises.
\<close>

theorem receive_alert_verified_answers_401:
  "json_loads (example_lib example_table) (body (example_request ''later''))
     = Some (JObj [(str ''type'', JStr (str ''resolved'')), (str ''chat_id'', JStr (str ''c1'')),
                   (str ''chat_title'', JStr (str ''Billing'')),
                   (str ''customer_name'', JStr (str ''Kim'')),
                   (str ''msg_preview'', JStr (str ''hello''))])
   \<and> fst (receive_alert example_config (example_lib example_table)
        (example_extern (10, 0, 0, 0) False None (Some 200)) (example_request ''later'') example_world)
       = Inl (HTTPException 401 (str ''Invalid signature''))
   \<and> fst (receive_alert example_config (example_lib example_table)
        (example_extern (10, 0, 0, 0) False None (Some 200)) (example_request ''later'') example_world)
       \<noteq> Inr ok_response
   \<and> dispatch_alert example_config (example_lib example_table)
        (example_extern (10, 0, 0, 0) False None (Some 200)) ''later'' example_world
       = (Inr ok_response, example_world)
   \<and> fst (dispatch_alert example_config (example_lib example_table)
        (example_extern (10, 0, 0, 0) False None (Some 500)) ''alert'' example_world)
       = Inr ok_response
   \<and> fst (dispatch_alert example_config (example_lib example_table)
        (example_extern (10, 0, 0, 0) False None None) ''alert'' example_world)
       = Inl SinkError"
proof -
  have k: "str ''resolved'' \<noteq> str ''unassigned''" "str ''resolved'' \<noteq> str ''my_chat''"
    by (simp_all add: str_def)
  show ?thesis
    using k
    by (simp add: receive_alert_unauthorized example_body example_loads
          dispatch_alert_parsed [OF example_loads(3) example_alert_fields]
          dispatch_alert_parsed [OF example_loads(4) example_alert_fields] render_alert_def
          example_answers)
       (simp add: example_alert_def)
qed

text \<open>
  Claim C9. An inbound event whose body parses and that is read without error is
  acknowledged if and only if no call made during the request raised an exception that
  nothing catches: no call to the registry and not the scheduling call. Otherwise the
  request fails with the exception of that call. (An exception of the upstream cancel is
  caught and does not fail the request.)
\<close>

theorem channel_webhook_acknowledges:
  assumes "json_loads lib b = Some payload"
    and "\<not> read_error (fst (channel_webhook cfg lib ext b w))"
  shows "(fst (channel_webhook cfg lib ext b w) = Inr ok_response
            \<longleftrightarrow> \<not> list_ex (uncaught ext) (new_calls w (snd (channel_webhook cfg lib ext b w))))
       \<and> (fst (channel_webhook cfg lib ext b w) = Inr ok_response
          \<or> fst (channel_webhook cfg lib ext b w) = Inl PublishError
          \<or> fst (channel_webhook cfg lib ext b w) = Inl RegistryError)"
  using channel_webhook_tracked [OF assms(1), of ext w cfg] assms(2)
    channel_webhook_value [of cfg lib ext b w]
  by (auto simp: tracked_def)

theorem channel_webhook_acknowledges_witness:
  "json_loads (example_lib example_table) ''customer'' = Some (example_customer_message JNull)
   \<and> \<not> read_error (fst (channel_webhook example_config (example_lib example_table)
         (example_extern (10, 0, 0, 0) False (Some (str ''msg_2'')) None) ''customer'' example_world))
   \<and> fst (channel_webhook example_config (example_lib example_table)
         (example_extern (10, 0, 0, 0) False (Some (str ''msg_2'')) None) ''customer'' example_world)
       = Inr ok_response
   \<and> \<not> list_ex (uncaught (example_extern (10, 0, 0, 0) False (Some (str ''msg_2'')) None))
         (new_calls example_world (snd (channel_webhook example_config (example_lib example_table)
            (example_extern (10, 0, 0, 0) False (Some (str ''msg_2'')) None) ''customer'' example_world)))"
proof -
  have r: "\<not> read_error (fst (channel_webhook example_config (example_lib example_table)
         (example_extern (10, 0, 0, 0) False (Some (str ''msg_2'')) None) ''customer'' example_world))"
    by (simp add: example_customer_served read_error_def)
  have a: "fst (channel_webhook example_config (example_lib example_table)
         (example_extern (10, 0, 0, 0) False (Some (str ''msg_2'')) None) ''customer'' example_world)
       = Inr ok_response"
    by (simp add: example_customer_served)
  show ?thesis
    using channel_webhook_acknowledges [OF example_loads(1) r] example_loads(1) r a by blast
qed

theorem channel_webhook_failure_counterexample:
  "json_loads (example_lib example_table) ''customer'' = Some (example_customer_message JNull)
   \<and> fst (channel_webhook example_config (example_lib example_table)
         (example_extern (10, 0, 0, 0) False None None) ''customer'' example_world)
       = Inl PublishError
   \<and> json_loads (example_lib example_table) ''member'' = Some example_member_message
   \<and> fst (channel_webhook example_config (example_lib example_table)
         (example_extern_down (10, 0, 0, 0)) ''member'' example_world)
       = Inl RegistryError
   \<and> json_loads (example_lib example_table) ''[]'' = Some (JArr [])
   \<and> fst (channel_webhook example_config (example_lib example_table)
         (example_extern (10, 0, 0, 0) False None None) ''[]'' example_world)
       = Inl AttributeError"
proof -
  have k: "registry example_world (timer_key (example_lib example_table) (JStr (str ''c1'')))
     = Some (str ''msg_1'', 360)"
    by (simp add: example_key example_world_registry)
  have a: "fst (channel_webhook example_config (example_lib example_table)
         (example_extern (10, 0, 0, 0) False None None) ''customer'' example_world)
       = Inl PublishError"
    by (simp add: channel_webhook_def example_loads example_customer_reads
          handle_customer_message_def example_hours example_fields schedule_timer_unfold
          cancel_present [OF k example_ids(1)] example_answers)
  have t: "truthy (JStr (str ''c1''))" by (simp add: str_def)
  have b: "fst (channel_webhook example_config (example_lib example_table)
         (example_extern_down (10, 0, 0, 0)) ''member'' example_world)
       = Inl RegistryError"
    using str_event_types str_sender_types t
    by (simp add: channel_webhook_def example_loads example_member_reads cancel_for_chat_def
          cancel_present [OF k example_ids(1)] example_answers)
  have c: "fst (channel_webhook example_config (example_lib example_table)
         (example_extern (10, 0, 0, 0) False None None) ''[]'' example_world)
       = Inl AttributeError"
    by (simp add: channel_webhook_def example_loads event_type_def bind_def)
  show ?thesis using a b c example_loads by simp
qed



end
